theory Spec2Isabelle
  imports Complex_Main
begin

section \<open>Go library functions used by the services\<close>

text \<open>
  Strings are byte lists. Paths are Unix paths: the only separator is the slash and there
  is no volume name. The functions below follow the Go standard library
  (\<^verbatim>\<open>strings\<close>, \<^verbatim>\<open>path/filepath\<close>) on that platform.
\<close>

definition IsPathSeparator :: "char \<Rightarrow> bool" where
  "IsPathSeparator c = (c = CHR ''/'')"

definition HasPrefix :: "string \<Rightarrow> string \<Rightarrow> bool" where
  "HasPrefix s p = (take (length p) s = p)"

definition TrimPrefix :: "string \<Rightarrow> string \<Rightarrow> string" where
  "TrimPrefix s p = (if HasPrefix s p then drop (length p) s else s)"

definition HasSuffix :: "string \<Rightarrow> string \<Rightarrow> bool" where
  "HasSuffix s x = (length x \<le> length s \<and> drop (length s - length x) s = x)"

definition TrimSuffix :: "string \<Rightarrow> string \<Rightarrow> string" where
  "TrimSuffix s x = (if HasSuffix s x then take (length s - length x) s else s)"

text \<open>
  \<^verbatim>\<open>strings.ToLower\<close>. A string of ASCII bytes only is lowered byte by byte. Any other
  string goes through \<^verbatim>\<open>unicode.ToLower\<close> rune by rune; the Unicode case tables are
  not modelled, so that mapping of a whole string is the parameter \<open>unicode_lower\<close>.
\<close>

definition lower_char :: "char \<Rightarrow> char" where
  "lower_char c =
     (case map_of (zip ''ABCDEFGHIJKLMNOPQRSTUVWXYZ'' ''abcdefghijklmnopqrstuvwxyz'') c of
        Some d \<Rightarrow> d
      | None \<Rightarrow> c)"

definition isASCII :: "string \<Rightarrow> bool" where
  "isASCII s = list_all (\<lambda>c. (of_char c :: nat) < 128) s"

definition ToLower :: "(string \<Rightarrow> string) \<Rightarrow> string \<Rightarrow> string" where
  "ToLower unicode_lower s = (if isASCII s then map lower_char s else unicode_lower s)"

text \<open>\<^verbatim>\<open>strings.Join(elems, sep)\<close>.\<close>

fun strings_Join :: "string list \<Rightarrow> string \<Rightarrow> string" where
  "strings_Join [] sep = []"
| "strings_Join [e] sep = e"
| "strings_Join (e # es) sep = e @ sep @ strings_Join es sep"

text \<open>
  \<^verbatim>\<open>filepath.Ext\<close>: scanning from the last byte backwards, the suffix that starts at the
  first dot met before any separator; empty when a separator (or the start) comes first.
\<close>

fun Ext_scan :: "string \<Rightarrow> string \<Rightarrow> string" where
  "Ext_scan [] suffix = []"
| "Ext_scan (c # front) suffix =
     (if IsPathSeparator c then []
      else if c = CHR ''.'' then c # suffix
      else Ext_scan front (c # suffix))"

definition Ext :: "string \<Rightarrow> string" where
  "Ext path = Ext_scan (rev path) []"

text \<open>
  \<^verbatim>\<open>filepath.Base\<close>: the last element of the path, after trailing separators are
  removed; \<open>.\<close> for the empty path and a single separator for a path of separators only.
\<close>

definition Base :: "string \<Rightarrow> string" where
  "Base path =
     (if path = [] then ''.''
      else
        let stripped = rev (dropWhile IsPathSeparator (rev path));
            element = rev (takeWhile (\<lambda>c. \<not> IsPathSeparator c) (rev stripped))
        in if element = [] then ''/'' else element)"

text \<open>
  \<^verbatim>\<open>filepath.Clean\<close>: empty and \<open>.\<close> elements are dropped, \<open>..\<close> removes the element
  before it (at the root it is dropped, at the start of a relative path it is kept), the
  result has no trailing separator, and the empty result is \<open>.\<close>.
\<close>

fun split_elems :: "string \<Rightarrow> string \<Rightarrow> string list" where
  "split_elems [] cur = [rev cur]"
| "split_elems (c # cs) cur =
     (if IsPathSeparator c then rev cur # split_elems cs [] else split_elems cs (c # cur))"

fun clean_elems :: "bool \<Rightarrow> string list \<Rightarrow> string list \<Rightarrow> string list" where
  "clean_elems rooted [] kept = rev kept"
| "clean_elems rooted (e # es) kept =
     (if e = [] \<or> e = ''.'' then clean_elems rooted es kept
      else if e = ''..'' then
        (case kept of
           [] \<Rightarrow> if rooted then clean_elems rooted es [] else clean_elems rooted es [''..'']
         | k # ks \<Rightarrow>
             if k = ''..'' then clean_elems rooted es (''..'' # kept)
             else clean_elems rooted es ks)
      else clean_elems rooted es (e # kept))"

definition Clean :: "string \<Rightarrow> string" where
  "Clean path =
     (if path = [] then ''.''
      else
        let rooted = IsPathSeparator (hd path);
            out = (if rooted then ''/'' else []) @
                  strings_Join (clean_elems rooted (split_elems path []) []) ''/''
        in if out = [] then ''.'' else out)"

text \<open>
  \<^verbatim>\<open>filepath.Join\<close>: leading empty elements are ignored, the rest is joined with the
  separator and cleaned; no non-empty element gives the empty string.
\<close>

definition Join :: "string list \<Rightarrow> string" where
  "Join elem =
     (case dropWhile (\<lambda>e. e = []) elem of
        [] \<Rightarrow> []
      | es \<Rightarrow> Clean (strings_Join es ''/''))"

text \<open>\<^verbatim>\<open>filepath.Dir\<close>: everything up to the last separator, cleaned.\<close>

definition Dir :: "string \<Rightarrow> string" where
  "Dir path = Clean (rev (dropWhile (\<lambda>c. \<not> IsPathSeparator c) (rev path)))"

fun Itoa_nat :: "nat \<Rightarrow> string" where
  "Itoa_nat n =
     (if n < 10 then [''0123456789'' ! n]
      else Itoa_nat (n div 10) @ [''0123456789'' ! (n mod 10)])"

declare Itoa_nat.simps [simp del]

text \<open>\<^verbatim>\<open>strconv.Itoa\<close>, also the rendering of the \<^verbatim>\<open>%d\<close> verb.\<close>

definition Itoa :: "int \<Rightarrow> string" where
  "Itoa i = (if i < 0 then ''-'' @ Itoa_nat (nat (- i)) else Itoa_nat (nat i))"

section \<open>Data model\<close>

text \<open>
  \<^verbatim>\<open>models.FileType\<close> and \<^verbatim>\<open>models.FileNamingMode\<close> are string types; their constants
  carry the values of the generated front-end types (\<^verbatim>\<open>'video' | 'image' | 'unknown'\<close>,
  \<^verbatim>\<open>'original' | 'custom'\<close>), as do the status constants. The zero value of a string type
  is the empty string. A Go \<^verbatim>\<open>error\<close> is modelled by its message, a \<^verbatim>\<open>(value, error)\<close>
  return by a sum whose left side is the error, or by a pair with an optional error where
  the source returns both. A \<^verbatim>\<open>float64\<close> is a real number. Wall-clock fields (durations,
  start and completion times) and log output are left out.
\<close>

type_synonym FileType = string
type_synonym FileNamingMode = string
type_synonym error = string

definition FileTypeVideo :: FileType where "FileTypeVideo = ''video''"
definition FileTypeImage :: FileType where "FileTypeImage = ''image''"
definition FileTypeUnknown :: FileType where "FileTypeUnknown = ''unknown''"

definition NamingModeOriginal :: FileNamingMode where "NamingModeOriginal = ''original''"
definition NamingModeCustom :: FileNamingMode where "NamingModeCustom = ''custom''"

definition StatusProcessing :: string where "StatusProcessing = ''processing''"
definition StatusCompleted :: string where "StatusCompleted = ''completed''"
definition StatusFailed :: string where "StatusFailed = ''failed''"
definition StatusCancelled :: string where "StatusCancelled = ''cancelled''"

record FileInfo =
  Path :: string
  Name :: string
  Extension :: string
  Size :: int
  Type :: FileType

record ConversionJob =
  InputPath :: string
  OutputPath :: string
  OutputFormat :: string
  OverwriteOutput :: bool

record ConversionResult =
  Success :: bool
  InputPath :: string
  OutputPath :: string
  OutputSize :: int
  ErrorMessage :: string

record BatchConversionRequest =
  Files :: "string list"
  OutputFormat :: string
  OutputDirectory :: string
  NamingMode :: FileNamingMode
  CustomNames :: "string list"
  MakeCopies :: bool

record BatchConversionResult =
  TotalFiles :: int
  SuccessCount :: int
  FailCount :: int
  Results :: "ConversionResult list"

record ConversionProgress =
  InputPath :: string
  Progress :: real
  Status :: string

text \<open>The persisted history row.\<close>

record Conversion =
  ID :: nat
  InputPath :: string
  OutputPath :: string
  InputFormat :: string
  OutputFormat :: string
  FileType :: FileType
  FileSize :: int
  OutputSize :: int
  Status :: string
  ErrorMessage :: string
  Progress :: real

text \<open>\<^verbatim>\<open>ffmpeg.ConvertOptions\<close>.\<close>

record ConvertOptions =
  InputPath :: string
  OutputPath :: string
  Overwrite :: bool
  VideoCodec :: string
  VideoBitrate :: string
  Resolution :: string
  FrameRate :: int
  AudioCodec :: string
  AudioBitrate :: string
  SampleRate :: int

text \<open>The implementations of the \<^verbatim>\<open>Converter\<close> interface found in the sources.\<close>

datatype Converter = FFmpegVideoConverter | AVFVideoConverter | ImageConverter

section \<open>The world outside the services\<close>

text \<open>
  The outcome of \<^verbatim>\<open>os.Stat\<close>: an entry (is it a directory, its size), the not-exist
  error, or another error with its text.
\<close>

datatype stat_result = StatOK bool int | StatNotExist | StatError string

text \<open>
  Running the transcoder subprocess: the step that failed (\<^verbatim>\<open>StdoutPipe\<close>,
  \<^verbatim>\<open>Start\<close>, \<^verbatim>\<open>Wait\<close>) with the error text, or a clean exit.
\<close>

datatype exec_result = PipeFailed error | StartFailed error | WaitFailed error | Exited

text \<open>
  The operating system, the image codecs, the transcoder binary, the native export
  session and the history store are seen through an abstract world \<open>'w\<close>: reading
  operations return an answer, the others also return the next world. Nothing is assumed
  about them. \<^verbatim>\<open>models.GetFileType\<close>, whose extension table is not part of the sources, is
  a parameter as well; \<open>regexp_Duration\<close> stands for the match of the duration pattern
  (hours, minutes, seconds, centiseconds), \<open>fmt_Errorf\<close> for \<^verbatim>\<open>fmt.Errorf\<close> applied to a
  message used as the format with no operands, and \<open>unicode_ToLower\<close> for the lowering
  of a string that is not pure ASCII.
\<close>

record 'w env =
  GetFileType :: "string \<Rightarrow> FileType"
  os_Stat :: "'w \<Rightarrow> string \<Rightarrow> stat_result"
  os_MkdirAll :: "'w \<Rightarrow> string \<Rightarrow> error option \<times> 'w"
  os_Open :: "'w \<Rightarrow> string \<Rightarrow> error option"
  os_Create :: "'w \<Rightarrow> string \<Rightarrow> error option \<times> 'w"
  image_Decode :: "'w \<Rightarrow> string \<Rightarrow> string \<Rightarrow> error option"
  image_Encode :: "'w \<Rightarrow> string \<Rightarrow> string \<Rightarrow> error option \<times> 'w"
  exec_CombinedOutput :: "'w \<Rightarrow> string list \<Rightarrow> string \<times> 'w"
  exec_Run :: "'w \<Rightarrow> string list \<Rightarrow> exec_result \<times> 'w"
  avf_convertVideo :: "'w \<Rightarrow> string \<Rightarrow> string \<Rightarrow> string \<Rightarrow> int \<times> 'w"
  repo_Create :: "'w \<Rightarrow> Conversion \<Rightarrow> error option \<times> Conversion \<times> 'w"
  repo_Update :: "'w \<Rightarrow> Conversion \<Rightarrow> error option \<times> 'w"
  repo_GetByID :: "'w \<Rightarrow> nat \<Rightarrow> error + Conversion option"
  regexp_Duration :: "string \<Rightarrow> (nat \<times> nat \<times> nat \<times> nat) option"
  fmt_Errorf :: "string \<Rightarrow> error"
  unicode_ToLower :: "string \<Rightarrow> string"

text \<open>
  The calls that leave the process, and the hand-over of a job to an adapter, are written
  to a journal in the order they are made. A state is a world and its journal; the
  functions below work on every extension of it, so that a caller can keep the variables
  its callback has captured next to them.
\<close>

datatype call =
    MkdirAllCall string
  | CreateCall string
  | EncodeCall string string
  | ProbeCall "string list"
  | ExecCall "string list"
  | AVFCall string string string
  | RepoCreateCall Conversion
  | RepoUpdateCall Conversion
  | ConvertCall Converter ConversionJob

record 'w state =
  world :: 'w
  journal :: "call list"

definition do_MkdirAll ::
  "'w env \<Rightarrow> ('w, 'z) state_scheme \<Rightarrow> string \<Rightarrow> error option \<times> ('w, 'z) state_scheme" where
  "do_MkdirAll e st dir =
     (case os_MkdirAll e (world st) dir of
        (err, w') \<Rightarrow> (err, st\<lparr>world := w', journal := journal st @ [MkdirAllCall dir]\<rparr>))"

definition do_Create ::
  "'w env \<Rightarrow> ('w, 'z) state_scheme \<Rightarrow> string \<Rightarrow> error option \<times> ('w, 'z) state_scheme" where
  "do_Create e st path =
     (case os_Create e (world st) path of
        (err, w') \<Rightarrow> (err, st\<lparr>world := w', journal := journal st @ [CreateCall path]\<rparr>))"

definition do_Encode ::
  "'w env \<Rightarrow> ('w, 'z) state_scheme \<Rightarrow> string \<Rightarrow> string \<Rightarrow>
   error option \<times> ('w, 'z) state_scheme" where
  "do_Encode e st codec path =
     (case image_Encode e (world st) codec path of
        (err, w') \<Rightarrow>
          (err, st\<lparr>world := w', journal := journal st @ [EncodeCall codec path]\<rparr>))"

definition do_CombinedOutput ::
  "'w env \<Rightarrow> ('w, 'z) state_scheme \<Rightarrow> string list \<Rightarrow> string \<times> ('w, 'z) state_scheme" where
  "do_CombinedOutput e st args =
     (case exec_CombinedOutput e (world st) args of
        (out, w') \<Rightarrow> (out, st\<lparr>world := w', journal := journal st @ [ProbeCall args]\<rparr>))"

definition do_Run ::
  "'w env \<Rightarrow> ('w, 'z) state_scheme \<Rightarrow> string list \<Rightarrow> exec_result \<times> ('w, 'z) state_scheme" where
  "do_Run e st args =
     (case exec_Run e (world st) args of
        (r, w') \<Rightarrow> (r, st\<lparr>world := w', journal := journal st @ [ExecCall args]\<rparr>))"

definition do_convertVideo ::
  "'w env \<Rightarrow> ('w, 'z) state_scheme \<Rightarrow> string \<Rightarrow> string \<Rightarrow> string \<Rightarrow>
   int \<times> ('w, 'z) state_scheme" where
  "do_convertVideo e st inputPath outputPath preset =
     (case avf_convertVideo e (world st) inputPath outputPath preset of
        (ret, w') \<Rightarrow>
          (ret, st\<lparr>world := w',
                     journal := journal st @ [AVFCall inputPath outputPath preset]\<rparr>))"

definition do_repo_Create ::
  "'w env \<Rightarrow> ('w, 'z) state_scheme \<Rightarrow> Conversion \<Rightarrow>
   error option \<times> Conversion \<times> ('w, 'z) state_scheme" where
  "do_repo_Create e st conversion =
     (case repo_Create e (world st) conversion of
        (err, conversion', w') \<Rightarrow>
          (err, conversion',
           st\<lparr>world := w', journal := journal st @ [RepoCreateCall conversion]\<rparr>))"

definition do_repo_Update ::
  "'w env \<Rightarrow> ('w, 'z) state_scheme \<Rightarrow> Conversion \<Rightarrow> error option \<times> ('w, 'z) state_scheme" where
  "do_repo_Update e st conversion =
     (case repo_Update e (world st) conversion of
        (err, w') \<Rightarrow>
          (err, st\<lparr>world := w', journal := journal st @ [RepoUpdateCall conversion]\<rparr>))"

text \<open>
  A progress callback is a procedure of the percentage; \<open>None\<close> is the nil callback. The
  adapters call it through \<open>report\<close>, which is the test for nil followed by the call.
\<close>

type_synonym ('w, 'z) callback = "(real \<Rightarrow> ('w, 'z) state_scheme \<Rightarrow> ('w, 'z) state_scheme) option"

definition report ::
  "('w, 'z) callback \<Rightarrow> real \<Rightarrow> ('w, 'z) state_scheme \<Rightarrow> ('w, 'z) state_scheme" where
  "report progressCallback progress st =
     (case progressCallback of None \<Rightarrow> st | Some callback \<Rightarrow> callback progress st)"

definition stat_ok :: "stat_result \<Rightarrow> bool" where
  "stat_ok r = (case r of StatOK d sz \<Rightarrow> True | StatNotExist \<Rightarrow> False | StatError m \<Rightarrow> False)"

definition stat_size :: "stat_result \<Rightarrow> int \<Rightarrow> int" where
  "stat_size r dflt = (case r of StatOK d sz \<Rightarrow> sz | StatNotExist \<Rightarrow> dflt | StatError m \<Rightarrow> dflt)"

section \<open>File service\<close>

definition GetFileInfo :: "'w env \<Rightarrow> 'w \<Rightarrow> string \<Rightarrow> error + FileInfo" where
  "GetFileInfo e w path0 =
     (let path = Clean path0 in
      case os_Stat e w path of
        StatNotExist \<Rightarrow> Inl (''file not found: '' @ path)
      | StatError msg \<Rightarrow> Inl (''failed to access file: '' @ msg)
      | StatOK isDir sz \<Rightarrow>
          if isDir then Inl (''path is a directory, not a file: '' @ path)
          else
            let ext = ToLower (unicode_ToLower e) (Ext path);
                fileType = GetFileType e ext
            in Inr \<lparr>Path = path, Name = Base path, Extension = ext, Size = sz,
                    Type = fileType\<rparr>)"

text \<open>
  The loop of \<^verbatim>\<open>ValidateFiles\<close>: \<open>i\<close> is the index of the path at the head of the list,
  the accumulator holds \<^verbatim>\<open>files\<close>, \<^verbatim>\<open>errors\<close> and \<^verbatim>\<open>firstType\<close>.
\<close>

fun ValidateFiles_loop ::
  "'w env \<Rightarrow> 'w \<Rightarrow> nat \<Rightarrow> string list \<Rightarrow>
   FileInfo list \<times> string list \<times> FileType \<Rightarrow> FileInfo list \<times> string list \<times> FileType" where
  "ValidateFiles_loop e w i [] acc = acc"
| "ValidateFiles_loop e w i (path # paths) (files, errors, firstType) =
     (case GetFileInfo e w path of
        Inl err \<Rightarrow>
          ValidateFiles_loop e w (Suc i) paths
            (files, errors @ [Base path @ '': '' @ err], firstType)
      | Inr info \<Rightarrow>
          if Type info = FileTypeUnknown then
            ValidateFiles_loop e w (Suc i) paths
              (files, errors @ [Name info @ '': unsupported file format''], firstType)
          else if i = 0 then
            ValidateFiles_loop e w (Suc i) paths (files @ [info], errors, Type info)
          else if Type info \<noteq> firstType then
            ValidateFiles_loop e w (Suc i) paths
              (files,
               errors @ [Name info @ '': mixed file types not allowed (expected '' @ firstType @
                         '', got '' @ Type info @ '')''],
               firstType)
          else ValidateFiles_loop e w (Suc i) paths (files @ [info], errors, firstType))"

definition ValidateFiles :: "'w env \<Rightarrow> 'w \<Rightarrow> string list \<Rightarrow> error + FileInfo list" where
  "ValidateFiles e w paths =
     (if length paths = 0 then Inl ''no files provided''
      else
        case ValidateFiles_loop e w 0 paths ([], [], []) of
          (files, errors, firstType) \<Rightarrow>
            if length files = 0 then
              Inl (''no valid files found: '' @ strings_Join errors ''; '')
            else Inr files)"

definition GenerateOutputPath ::
  "string \<Rightarrow> string \<Rightarrow> string \<Rightarrow> FileNamingMode \<Rightarrow> string \<Rightarrow> string" where
  "GenerateOutputPath inputPath outputDir outputFormat namingMode customName =
     (let baseName =
            (if namingMode = NamingModeCustom then
               (if customName \<noteq> [] then customName
                else TrimSuffix (Base inputPath) (Ext inputPath))
             else TrimSuffix (Base inputPath) (Ext inputPath));
          outputFormat' = TrimPrefix outputFormat ''.''
      in Join [outputDir, baseName @ ''.'' @ outputFormat'])"

section \<open>The FFmpeg wrapper\<close>

definition GetDuration ::
  "'w env \<Rightarrow> ('w, 'z) state_scheme \<Rightarrow> string \<Rightarrow> (error + real) \<times> ('w, 'z) state_scheme" where
  "GetDuration e st inputPath =
     (case do_CombinedOutput e st [''-i'', inputPath, ''-hide_banner''] of
        (out, st') \<Rightarrow>
          (case regexp_Duration e out of
             None \<Rightarrow> (Inl ''could not parse duration from FFmpeg output'', st')
           | Some (hours, minutes, seconds, centiseconds) \<Rightarrow>
               (Inr (real hours * 3600 + real minutes * 60 + real seconds +
                     real centiseconds / 100), st')))"

text \<open>\<^verbatim>\<open>GetDefaultCodec\<close>; its first parameter is the one of \<open>ToLower\<close>.\<close>

definition GetDefaultCodec :: "(string \<Rightarrow> string) \<Rightarrow> string \<Rightarrow> string \<times> string" where
  "GetDefaultCodec unicode_lower format0 =
     (let format = TrimPrefix (ToLower unicode_lower format0) ''.'' in
      if format = ''mp4'' then (''libx264'', ''aac'')
      else if format = ''webm'' then (''libvpx-vp9'', ''libopus'')
      else if format = ''avi'' then (''mpeg4'', ''mp3'')
      else if format = ''mkv'' then (''libx264'', ''aac'')
      else if format = ''mov'' then (''libx264'', ''aac'')
      else ([], []))"

text \<open>The argument list that \<^verbatim>\<open>FFmpeg.Convert\<close> builds.\<close>

definition Convert_args :: "ConvertOptions \<Rightarrow> string list" where
  "Convert_args opts =
     (if Overwrite opts then [''-y''] else [''-n'']) @
     [''-i'', ConvertOptions.InputPath opts] @
     (if VideoCodec opts \<noteq> [] then [''-c:v'', VideoCodec opts] else []) @
     (if VideoBitrate opts \<noteq> [] then [''-b:v'', VideoBitrate opts] else []) @
     (if Resolution opts \<noteq> [] then [''-s'', Resolution opts] else []) @
     (if FrameRate opts > 0 then [''-r'', Itoa (FrameRate opts)] else []) @
     (if AudioCodec opts \<noteq> [] then [''-c:a'', AudioCodec opts] else []) @
     (if AudioBitrate opts \<noteq> [] then [''-b:a'', AudioBitrate opts] else []) @
     (if SampleRate opts > 0 then [''-ar'', Itoa (SampleRate opts)] else []) @
     [''-progress'', ''pipe:1'', ''-nostats''] @
     [ConvertOptions.OutputPath opts]"

text \<open>
  \<^verbatim>\<open>FFmpeg.Convert\<close> and \<^verbatim>\<open>FFmpeg.ConvertToGif\<close>. After a clean exit the caller reports
  100 itself. The reports of the values read from the subprocess are sent by a goroutine
  that runs beside the caller and is never joined; they are outside this sequential
  model, and with them the only use of the probed duration.
\<close>

definition ffmpeg_Convert ::
  "'w env \<Rightarrow> ('w, 'z) callback \<Rightarrow> ('w, 'z) state_scheme \<Rightarrow> ConvertOptions \<Rightarrow>
   error option \<times> ('w, 'z) state_scheme" where
  "ffmpeg_Convert e progressCallback st opts =
     (case GetDuration e st (ConvertOptions.InputPath opts) of
        (duration, st1) \<Rightarrow>
          (case do_Run e st1 (Convert_args opts) of
             (PipeFailed err, st2) \<Rightarrow> (Some (''failed to get stdout pipe: '' @ err), st2)
           | (StartFailed err, st2) \<Rightarrow> (Some (''failed to start FFmpeg: '' @ err), st2)
           | (WaitFailed err, st2) \<Rightarrow> (Some (''conversion failed: '' @ err), st2)
           | (Exited, st2) \<Rightarrow> (None, report progressCallback 100 st2)))"

definition ConvertToGif_args :: "string \<Rightarrow> string \<Rightarrow> bool \<Rightarrow> string list" where
  "ConvertToGif_args inputPath outputPath overwrite =
     (if overwrite then [''-y''] else []) @
     [''-i'', inputPath,
      ''-vf'',
      ''fps=10,scale=480:-1:flags=lanczos,split[s0][s1];[s0]palettegen[p];[s1][p]paletteuse'',
      ''-loop'', ''0'',
      ''-progress'', ''pipe:1'', ''-nostats'',
      outputPath]"

definition ffmpeg_ConvertToGif ::
  "'w env \<Rightarrow> ('w, 'z) callback \<Rightarrow> ('w, 'z) state_scheme \<Rightarrow> string \<Rightarrow> string \<Rightarrow> bool \<Rightarrow>
   error option \<times> ('w, 'z) state_scheme" where
  "ffmpeg_ConvertToGif e progressCallback st inputPath outputPath overwrite =
     (case GetDuration e st inputPath of
        (duration, st1) \<Rightarrow>
          (case do_Run e st1 (ConvertToGif_args inputPath outputPath overwrite) of
             (PipeFailed err, st2) \<Rightarrow> (Some (''failed to get stdout pipe: '' @ err), st2)
           | (StartFailed err, st2) \<Rightarrow> (Some (''failed to start FFmpeg: '' @ err), st2)
           | (WaitFailed err, st2) \<Rightarrow> (Some (''GIF conversion failed: '' @ err), st2)
           | (Exited, st2) \<Rightarrow> (None, report progressCallback 100 st2)))"

section \<open>The adapters\<close>

text \<open>
  Every adapter starts from a result that carries the job's two paths and returns it,
  never a nil pointer, together with the error.
\<close>

definition new_result :: "ConversionJob \<Rightarrow> ConversionResult" where
  "new_result job =
     \<lparr>Success = False,
      ConversionResult.InputPath = ConversionJob.InputPath job,
      ConversionResult.OutputPath = ConversionJob.OutputPath job,
      ConversionResult.OutputSize = 0,
      ConversionResult.ErrorMessage = []\<rparr>"

definition failed ::
  "ConversionResult \<Rightarrow> string \<Rightarrow> error \<Rightarrow> 's \<Rightarrow> (ConversionResult \<times> error option) \<times> 's" where
  "failed result msg err st = ((result\<lparr>ConversionResult.ErrorMessage := msg\<rparr>, Some err), st)"

text \<open>The end of a conversion that went well: the size of the output file is read, when
  it can be, and the result is marked a success.\<close>

definition succeeded ::
  "'w env \<Rightarrow> ConversionResult \<Rightarrow> ConversionJob \<Rightarrow> 'w \<Rightarrow> ConversionResult \<times> error option" where
  "succeeded e result job w =
     (result\<lparr>ConversionResult.OutputSize :=
                stat_size (os_Stat e w (ConversionJob.OutputPath job))
                  (ConversionResult.OutputSize result),
              Success := True\<rparr>, None)"

definition ffmpegVideoConverter_Convert ::
  "'w env \<Rightarrow> ('w, 'z) callback \<Rightarrow> ('w, 'z) state_scheme \<Rightarrow> ConversionJob \<Rightarrow>
   (ConversionResult \<times> error option) \<times> ('w, 'z) state_scheme" where
  "ffmpegVideoConverter_Convert e progressCallback st job =
     (let result = new_result job;
          inputPath = ConversionJob.InputPath job;
          outputPath = ConversionJob.OutputPath job
      in
      if os_Stat e (world st) inputPath = StatNotExist then
        failed result (''Input file not found: '' @ inputPath)
          (''Input file not found: '' @ inputPath) st
      else
        case do_MkdirAll e st (Dir outputPath) of
          (Some err, st1) \<Rightarrow>
            failed result (''Failed to create output directory: '' @ err)
              (''Failed to create output directory: '' @ err) st1
        | (None, st1) \<Rightarrow>
            if \<not> OverwriteOutput job \<and> stat_ok (os_Stat e (world st1) outputPath) then
              failed result (''Output file already exists: '' @ outputPath)
                (''Output file already exists: '' @ outputPath) st1
            else
              let outputFormat =
                    TrimPrefix (ToLower (unicode_ToLower e) (Ext outputPath)) ''.'' in
              if outputFormat = ''gif'' then
                (case ffmpeg_ConvertToGif e progressCallback st1 inputPath outputPath
                        (OverwriteOutput job) of
                   (Some err, st2) \<Rightarrow> failed result err err st2
                 | (None, st2) \<Rightarrow> (succeeded e result job (world st2), st2))
              else
                (case GetDefaultCodec (unicode_ToLower e) outputFormat of
                   (videoCodec, audioCodec) \<Rightarrow>
                     (case ffmpeg_Convert e progressCallback st1
                             \<lparr>ConvertOptions.InputPath = inputPath,
                              ConvertOptions.OutputPath = outputPath,
                              Overwrite = OverwriteOutput job,
                              VideoCodec = videoCodec, VideoBitrate = [], Resolution = [],
                              FrameRate = 0,
                              AudioCodec = audioCodec, AudioBitrate = [], SampleRate = 0\<rparr> of
                        (Some err, st2) \<Rightarrow> failed result err err st2
                      | (None, st2) \<Rightarrow> (succeeded e result job (world st2), st2))))"

definition isAVFoundationFormat :: "string \<Rightarrow> bool" where
  "isAVFoundationFormat format = (format = ''mp4'' \<or> format = ''mov'' \<or> format = ''m4v'')"

definition getPresetForFormat :: "string \<Rightarrow> string" where
  "getPresetForFormat format = ''AVAssetExportPresetHighestQuality''"

definition avf_error_message :: "int \<Rightarrow> string" where
  "avf_error_message ret =
     (if ret = - 1 then ''Failed to load input asset''
      else if ret = - 2 then ''Failed to create export session''
      else if ret = - 3 then ''Export failed''
      else if ret = - 4 then ''Export was cancelled''
      else ''Unknown error: '' @ Itoa ret)"

text \<open>
  The native adapter. While the export runs, a monitoring block on another queue reports
  the session's progress; like the scanner goroutine it is never joined and is outside
  this model. The caller reports 100 itself after it has read the output size.
\<close>

definition avfVideoConverter_Convert ::
  "'w env \<Rightarrow> ('w, 'z) callback \<Rightarrow> ('w, 'z) state_scheme \<Rightarrow> ConversionJob \<Rightarrow>
   (ConversionResult \<times> error option) \<times> ('w, 'z) state_scheme" where
  "avfVideoConverter_Convert e progressCallback st job =
     (let result = new_result job;
          inputPath = ConversionJob.InputPath job;
          outputPath = ConversionJob.OutputPath job
      in
      if os_Stat e (world st) inputPath = StatNotExist then
        failed result (''Input file not found: '' @ inputPath)
          (fmt_Errorf e (''Input file not found: '' @ inputPath)) st
      else
        case do_MkdirAll e st (Dir outputPath) of
          (Some err, st1) \<Rightarrow>
            failed result (''Failed to create output directory: '' @ err)
              (fmt_Errorf e (''Failed to create output directory: '' @ err)) st1
        | (None, st1) \<Rightarrow>
            if \<not> OverwriteOutput job \<and> stat_ok (os_Stat e (world st1) outputPath) then
              failed result (''Output file already exists: '' @ outputPath)
                (fmt_Errorf e (''Output file already exists: '' @ outputPath)) st1
            else
              let outputFormat =
                    TrimPrefix (ToLower (unicode_ToLower e) (Ext outputPath)) ''.'' in
              if \<not> isAVFoundationFormat outputFormat then
                failed result
                  (''Format '' @ outputFormat @
                   '' is not supported by AVFoundation. Supported formats: mp4, mov, m4v'')
                  (fmt_Errorf e
                    (''Format '' @ outputFormat @
                     '' is not supported by AVFoundation. Supported formats: mp4, mov, m4v''))
                  st1
              else
                (case do_convertVideo e st1 inputPath outputPath
                        (getPresetForFormat outputFormat) of
                   (ret, st2) \<Rightarrow>
                     if ret \<noteq> 0 then
                       failed result (avf_error_message ret)
                         (fmt_Errorf e (avf_error_message ret)) st2
                     else
                       (succeeded e result job (world st2),
                        report progressCallback 100 st2)))"

definition image_decoder :: "string \<Rightarrow> string" where
  "image_decoder inputFormat =
     (if inputFormat = ''png'' then ''png''
      else if inputFormat = ''jpg'' \<or> inputFormat = ''jpeg'' then ''jpeg''
      else if inputFormat = ''gif'' then ''gif''
      else if inputFormat = ''webp'' then ''webp''
      else if inputFormat = ''bmp'' then ''bmp''
      else if inputFormat = ''tiff'' \<or> inputFormat = ''tif'' then ''tiff''
      else ''image'')"

definition image_encoder :: "string \<Rightarrow> string + string" where
  "image_encoder outputFormat =
     (if outputFormat = ''png'' then Inr ''png''
      else if outputFormat = ''jpg'' \<or> outputFormat = ''jpeg'' then Inr ''jpeg''
      else if outputFormat = ''gif'' then Inr ''gif''
      else if outputFormat = ''bmp'' then Inr ''bmp''
      else if outputFormat = ''tiff'' \<or> outputFormat = ''tif'' then Inr ''tiff''
      else if outputFormat = ''webp'' then
        Inl ''WebP encoding is not supported as output format''
      else Inl (''Unsupported output format: '' @ outputFormat))"

text \<open>The image adapter reports 10, 20, 50, 70 and 100 on its way.\<close>

definition imageConverter_Convert ::
  "'w env \<Rightarrow> ('w, 'z) callback \<Rightarrow> ('w, 'z) state_scheme \<Rightarrow> ConversionJob \<Rightarrow>
   (ConversionResult \<times> error option) \<times> ('w, 'z) state_scheme" where
  "imageConverter_Convert e progressCallback st job =
     (let result = new_result job;
          inputPath = ConversionJob.InputPath job;
          outputPath = ConversionJob.OutputPath job;
          st1 = report progressCallback 10 st
      in
      case os_Open e (world st1) inputPath of
        Some err \<Rightarrow>
          failed result (''Failed to open input file: '' @ err)
            (''Failed to open input file: '' @ err) st1
      | None \<Rightarrow>
          (let st2 = report progressCallback 20 st1 in
           case image_Decode e (world st2)
                  (image_decoder
                     (ToLower (unicode_ToLower e) (TrimPrefix (Ext inputPath) ''.'')))
                  inputPath of
             Some err \<Rightarrow>
               failed result (''Failed to decode image: '' @ err)
                 (''Failed to decode image: '' @ err) st2
           | None \<Rightarrow>
               (case do_MkdirAll e (report progressCallback 50 st2) (Dir outputPath) of
                  (Some err, st4) \<Rightarrow>
                    failed result (''Failed to create output directory: '' @ err)
                      (''Failed to create output directory: '' @ err) st4
                | (None, st4) \<Rightarrow>
                    if \<not> OverwriteOutput job \<and> stat_ok (os_Stat e (world st4) outputPath)
                    then
                      failed result (''Output file already exists: '' @ outputPath)
                        (''Output file already exists: '' @ outputPath) st4
                    else
                      (case do_Create e st4 outputPath of
                         (Some err, st5) \<Rightarrow>
                           failed result (''Failed to create output file: '' @ err)
                             (''Failed to create output file: '' @ err) st5
                       | (None, st5) \<Rightarrow>
                           (let st6 = report progressCallback 70 st5 in
                            case image_encoder
                                   (ToLower (unicode_ToLower e)
                                      (TrimPrefix (Ext outputPath) ''.'')) of
                              Inl msg \<Rightarrow> failed result msg msg st6
                            | Inr codec \<Rightarrow>
                                (case do_Encode e st6 codec outputPath of
                                   (Some err, st7) \<Rightarrow>
                                     failed result (''Failed to encode image: '' @ err)
                                       (''Failed to encode image: '' @ err) st7
                                 | (None, st7) \<Rightarrow>
                                     (let st8 = report progressCallback 100 st7 in
                                      (succeeded e result job (world st8), st8))))))))"

text \<open>The call through the \<^verbatim>\<open>Converter\<close> interface.\<close>

definition Converter_Convert ::
  "'w env \<Rightarrow> Converter \<Rightarrow> ('w, 'z) callback \<Rightarrow> ('w, 'z) state_scheme \<Rightarrow> ConversionJob \<Rightarrow>
   (ConversionResult \<times> error option) \<times> ('w, 'z) state_scheme" where
  "Converter_Convert e c progressCallback st job =
     (let st0 = st\<lparr>journal := journal st @ [ConvertCall c job]\<rparr> in
      case c of
        FFmpegVideoConverter \<Rightarrow> ffmpegVideoConverter_Convert e progressCallback st0 job
      | AVFVideoConverter \<Rightarrow> avfVideoConverter_Convert e progressCallback st0 job
      | ImageConverter \<Rightarrow> imageConverter_Convert e progressCallback st0 job)"

section \<open>Conversion service\<close>

text \<open>
  The service holds its two adapters and the map of active conversions, from a conversion
  id to the effect of its cancel function. The file service has one implementation, the
  functions above; the history store is reached through the world.
\<close>

record 'w conversionServiceImpl =
  videoConverter :: Converter
  imageConverter :: Converter
  activeConversions :: "nat \<rightharpoonup> ('w state \<Rightarrow> 'w state)"

definition NewConversionService :: "Converter \<Rightarrow> Converter \<Rightarrow> 'w conversionServiceImpl" where
  "NewConversionService videoConv imageConv =
     \<lparr>videoConverter = videoConv, imageConverter = imageConv,
      activeConversions = Map.empty\<rparr>"

text \<open>
  While an adapter runs, the history row that \<^verbatim>\<open>ConvertFile\<close> has created (its local
  \<^verbatim>\<open>conversion\<close>) is shared with the progress callback, which has captured it: the state
  is extended by that row.
\<close>

record 'w tracking = "'w state" +
  captured :: Conversion

text \<open>The callback \<^verbatim>\<open>ConvertFile\<close> hands to the adapter: it stores the percentage in the
  row and writes the row to the history store.\<close>

definition ConvertFile_progress :: "'w env \<Rightarrow> real \<Rightarrow> 'w tracking \<Rightarrow> 'w tracking" where
  "ConvertFile_progress e progress st =
     (let st1 = st\<lparr>captured := (captured st)\<lparr>Progress := progress\<rparr>\<rparr>
      in snd (do_repo_Update e st1 (captured st1)))"

text \<open>
  \<^verbatim>\<open>ConvertFile\<close> returns a result pointer and an error; both can be set (an adapter
  failed) and the pointer is nil when the file cannot be resolved or has no adapter.
\<close>

definition ConvertFile ::
  "'w env \<Rightarrow> 'w conversionServiceImpl \<Rightarrow> 'w state \<Rightarrow> ConversionJob \<Rightarrow>
   (ConversionResult option \<times> error option) \<times> 'w state" where
  "ConvertFile e s st job =
     (case GetFileInfo e (world st) (ConversionJob.InputPath job) of
        Inl err \<Rightarrow> ((None, Some err), st)
      | Inr fileInfo \<Rightarrow>
          (case do_repo_Create e st
                  \<lparr>ID = 0,
                   Conversion.InputPath = ConversionJob.InputPath job,
                   Conversion.OutputPath = ConversionJob.OutputPath job,
                   InputFormat = Extension fileInfo,
                   Conversion.OutputFormat = ConversionJob.OutputFormat job,
                   FileType = Type fileInfo,
                   FileSize = Size fileInfo,
                   Conversion.OutputSize = 0,
                   Conversion.Status = StatusProcessing,
                   Conversion.ErrorMessage = [],
                   Progress = 0\<rparr> of
             (createErr, created, st1) \<Rightarrow>
               (case (if Type fileInfo = FileTypeVideo then Some (videoConverter s)
                      else if Type fileInfo = FileTypeImage then Some (imageConverter s)
                      else None) of
                  None \<Rightarrow> ((None, Some (''unsupported file type: '' @ Type fileInfo)), st1)
                | Some converter \<Rightarrow>
                    (case Converter_Convert e converter (Some (ConvertFile_progress e))
                            \<lparr>world = world st1, journal = journal st1, captured = created\<rparr>
                            job of
                       ((result, err), st2) \<Rightarrow>
                         (case do_repo_Update e st2
                                 (case err of
                                    Some msg \<Rightarrow>
                                      (captured st2)
                                        \<lparr>Conversion.Status := StatusFailed,
                                         Conversion.ErrorMessage := msg\<rparr>
                                  | None \<Rightarrow>
                                      (captured st2)
                                        \<lparr>Conversion.Status := StatusCompleted,
                                         Conversion.OutputSize :=
                                           ConversionResult.OutputSize result\<rparr>) of
                            (updateErr, st3) \<Rightarrow>
                              ((Some result, err),
                               \<lparr>world = world st3, journal = journal st3\<rparr>))))))"

text \<open>The job \<^verbatim>\<open>ConvertBatch\<close> builds for the path at index \<open>i\<close>.\<close>

definition ConvertBatch_job :: "BatchConversionRequest \<Rightarrow> nat \<Rightarrow> string \<Rightarrow> ConversionJob" where
  "ConvertBatch_job request i inputPath =
     (let customName =
            (if NamingMode request = NamingModeCustom \<and> i < length (CustomNames request)
             then CustomNames request ! i else []);
          outputPath =
            GenerateOutputPath inputPath (OutputDirectory request)
              (BatchConversionRequest.OutputFormat request) (NamingMode request) customName;
          job = \<lparr>ConversionJob.InputPath = inputPath,
                 ConversionJob.OutputPath = outputPath,
                 ConversionJob.OutputFormat = BatchConversionRequest.OutputFormat request,
                 OverwriteOutput = (\<not> MakeCopies request)\<rparr>
      in if MakeCopies request then job\<lparr>OverwriteOutput := True\<rparr> else job)"

text \<open>
  The loop of \<^verbatim>\<open>ConvertBatch\<close>. The progress callback, when there is one, acts on the
  world. Dereferencing a nil result with a nil error would be a run-time panic: the value
  \<open>None\<close>.
\<close>

fun ConvertBatch_loop ::
  "'w env \<Rightarrow> 'w conversionServiceImpl \<Rightarrow> BatchConversionRequest \<Rightarrow>
   (ConversionProgress \<Rightarrow> 'w \<Rightarrow> 'w) option \<Rightarrow> nat \<Rightarrow> string list \<Rightarrow>
   BatchConversionResult \<times> 'w state \<Rightarrow> (BatchConversionResult \<times> 'w state) option" where
  "ConvertBatch_loop e s request progressCallback i [] acc = Some acc"
| "ConvertBatch_loop e s request progressCallback i (inputPath # rest) (result, st) =
     (case GetFileInfo e (world st) inputPath of
        Inl err \<Rightarrow>
          ConvertBatch_loop e s request progressCallback (Suc i) rest
            (result\<lparr>Results := Results result @
                        [\<lparr>Success = False,
                          ConversionResult.InputPath = inputPath,
                          ConversionResult.OutputPath = [],
                          ConversionResult.OutputSize = 0,
                          ConversionResult.ErrorMessage = err\<rparr>],
                    FailCount := FailCount result + 1\<rparr>, st)
      | Inr info \<Rightarrow>
          (let job = ConvertBatch_job request i inputPath in
           case ConvertFile e s st job of
             ((convResult, convErr), st1) \<Rightarrow>
               (let emit =
                      (\<lambda>st. case progressCallback of
                               None \<Rightarrow> st
                             | Some callback \<Rightarrow>
                                 st\<lparr>world :=
                                      callback
                                        \<lparr>ConversionProgress.InputPath = inputPath,
                                         Progress =
                                           real (i + 1) / real (length (Files request)) * 100,
                                         ConversionProgress.Status = StatusCompleted\<rparr>
                                        (world st)\<rparr>)
                in
                case convErr of
                  Some err \<Rightarrow>
                    ConvertBatch_loop e s request progressCallback (Suc i) rest
                      (result\<lparr>Results := Results result @
                                  [\<lparr>Success = False,
                                    ConversionResult.InputPath = inputPath,
                                    ConversionResult.OutputPath = ConversionJob.OutputPath job,
                                    ConversionResult.OutputSize = 0,
                                    ConversionResult.ErrorMessage = err\<rparr>],
                              FailCount := FailCount result + 1\<rparr>, emit st1)
                | None \<Rightarrow>
                    (case convResult of
                       None \<Rightarrow> None
                     | Some r \<Rightarrow>
                         ConvertBatch_loop e s request progressCallback (Suc i) rest
                           (result\<lparr>Results := Results result @ [r],
                                   SuccessCount := SuccessCount result + 1\<rparr>, emit st1)))))"

text \<open>\<^verbatim>\<open>ConvertBatch\<close> has one return statement, with a nil error.\<close>

definition ConvertBatch ::
  "'w env \<Rightarrow> 'w conversionServiceImpl \<Rightarrow> 'w state \<Rightarrow> BatchConversionRequest \<Rightarrow>
   (ConversionProgress \<Rightarrow> 'w \<Rightarrow> 'w) option \<Rightarrow>
   ((error + BatchConversionResult) \<times> 'w state) option" where
  "ConvertBatch e s st request progressCallback =
     (case ConvertBatch_loop e s request progressCallback 0 (Files request)
             (\<lparr>TotalFiles = int (length (Files request)), SuccessCount = 0, FailCount = 0,
               Results = []\<rparr>, st) of
        None \<Rightarrow> None
      | Some (result, st') \<Rightarrow> Some (Inr result, st'))"

definition CancelConversion ::
  "'w env \<Rightarrow> 'w conversionServiceImpl \<Rightarrow> 'w state \<Rightarrow> nat \<Rightarrow>
   error option \<times> 'w conversionServiceImpl \<times> 'w state" where
  "CancelConversion e s st cid =
     (case activeConversions s cid of
        Some cancel \<Rightarrow>
          (let st1 = cancel st;
               s' = s\<lparr>activeConversions := (activeConversions s)(cid := None)\<rparr>;
               st2 = (case repo_GetByID e (world st1) cid of
                        Inr (Some conversion) \<Rightarrow>
                          snd (do_repo_Update e st1
                                 (conversion\<lparr>Conversion.Status := StatusCancelled\<rparr>))
                      | Inr None \<Rightarrow> st1
                      | Inl err \<Rightarrow> st1)
           in (None, s', st2))
      | None \<Rightarrow>
          (Some (''conversion '' @ Itoa (int cid) @ '' not found or already completed''),
           s, st))"

text \<open>
  The states a service can be in: freshly built by \<^verbatim>\<open>NewConversionService\<close>, or after
  any call of its interface. Calls are taken one at a time, and between two calls the
  world may change in any way.
\<close>

inductive reachable ::
  "'w env \<Rightarrow> 'w conversionServiceImpl \<times> 'w state \<Rightarrow> bool" for e :: "'w env" where
  new: "reachable e (NewConversionService videoConv imageConv, st)"
| convertFile:
    "reachable e (s, st) \<Longrightarrow> ConvertFile e s st job = (r, st') \<Longrightarrow> reachable e (s, st')"
| convertBatch:
    "reachable e (s, st) \<Longrightarrow> ConvertBatch e s st request progressCallback = Some (r, st') \<Longrightarrow>
     reachable e (s, st')"
| cancelConversion:
    "reachable e (s, st) \<Longrightarrow> CancelConversion e s st cid = (r, s', st') \<Longrightarrow>
     reachable e (s', st')"
| outside: "reachable e (s, st) \<Longrightarrow> reachable e (s, st')"

section \<open>A small world for concrete runs\<close>

text \<open>
  Modelled from the spec: \<^verbatim>\<open>models.GetFileType\<close> is not among the sources. The spec's format
  capability table maps a recognised extension to its category and every other extension
  to \<open>unknown\<close>; the extensions are those of the architecture notes.
\<close>

definition demo_GetFileType :: "string \<Rightarrow> FileType" where
  "demo_GetFileType ext =
     (if ext \<in> set [''.mp4'', ''.webm'', ''.avi'', ''.mkv'', ''.mov''] then FileTypeVideo
      else if ext \<in> set [''.png'', ''.jpg'', ''.jpeg'', ''.webp'', ''.gif'', ''.bmp'', ''.tiff'']
      then FileTypeImage
      else FileTypeUnknown)"

text \<open>
  A world is the list of the entries that exist, newest first. Creating, encoding and
  transcoding add the output file; directories can always be made; the history store
  accepts everything and remembers nothing. No path of the concrete runs has a byte
  outside ASCII, so the lowering of other strings is never asked for.
\<close>

type_synonym demo_world = "(string \<times> stat_result) list"

definition demo_Stat :: "demo_world \<Rightarrow> string \<Rightarrow> stat_result" where
  "demo_Stat w path = (case map_of w path of Some r \<Rightarrow> r | None \<Rightarrow> StatNotExist)"

definition demo_env :: "demo_world env" where
  "demo_env =
     \<lparr>GetFileType = demo_GetFileType,
      os_Stat = demo_Stat,
      os_MkdirAll = (\<lambda>w dir. (None, w)),
      os_Open = (\<lambda>w path. if stat_ok (demo_Stat w path) then None
                           else Some (''open '' @ path @ '': no such file or directory'')),
      os_Create = (\<lambda>w path. (None, (path, StatOK False 0) # w)),
      image_Decode = (\<lambda>w codec path. None),
      image_Encode = (\<lambda>w codec path. (None, (path, StatOK False 1) # w)),
      exec_CombinedOutput = (\<lambda>w args. ([], w)),
      exec_Run = (\<lambda>w args. (Exited, (last args, StatOK False 1) # w)),
      avf_convertVideo = (\<lambda>w inputPath outputPath preset.
                            (0, (outputPath, StatOK False 1) # w)),
      repo_Create = (\<lambda>w conversion. (None, conversion\<lparr>ID := 1\<rparr>, w)),
      repo_Update = (\<lambda>w conversion. (None, w)),
      repo_GetByID = (\<lambda>w cid. Inr None),
      regexp_Duration = (\<lambda>out. None),
      fmt_Errorf = (\<lambda>msg. msg),
      unicode_ToLower = (\<lambda>s. s)\<rparr>"

definition demo_state :: "demo_world \<Rightarrow> demo_world state" where
  "demo_state w = \<lparr>world = w, journal = []\<rparr>"

text \<open>
  The worlds, services, requests and jobs of the concrete runs: two video files; a video
  file whose planned output is already there; a picture whose planned output is already
  there, beside a video file; a request without files and one for a picture and a video
  with a target the image adapter cannot write; a job for an input that is gone, a job
  whose target is a GIF, and a job for the picture that must not overwrite, with the row
  of the history that the service keeps for it and the state in which it reaches the
  adapter and the one in which the adapter looks for the output.
\<close>

definition demo_files :: demo_world where
  "demo_files = [(''/in/a.mp4'', StatOK False 10), (''/in/b.mp4'', StatOK False 20)]"

definition demo_taken :: demo_world where
  "demo_taken = [(''/in/a.mov'', StatOK False 10), (''/out/a.mp4'', StatOK False 5)]"

definition lost_job :: ConversionJob where
  "lost_job =
     \<lparr>ConversionJob.InputPath = ''/in/gone.mov'', ConversionJob.OutputPath = ''/out/a.mp4'',
      ConversionJob.OutputFormat = ''mp4'', OverwriteOutput = False\<rparr>"

definition demo_service :: "demo_world conversionServiceImpl" where
  "demo_service = NewConversionService FFmpegVideoConverter ImageConverter"

definition empty_request :: BatchConversionRequest where
  "empty_request =
     \<lparr>Files = [], BatchConversionRequest.OutputFormat = ''mp4'', OutputDirectory = ''/out'',
      NamingMode = NamingModeOriginal, CustomNames = [], MakeCopies = False\<rparr>"

definition gif_job :: ConversionJob where
  "gif_job =
     \<lparr>ConversionJob.InputPath = ''/in/a.mp4'', ConversionJob.OutputPath = ''/out/a.gif'',
      ConversionJob.OutputFormat = ''gif'', OverwriteOutput = True\<rparr>"

definition demo_album :: demo_world where
  "demo_album =
     [(''/in/p.png'', StatOK False 30), (''/out/p.jpg'', StatOK False 5),
      (''/in/a.mov'', StatOK False 10)]"

definition picture_job :: ConversionJob where
  "picture_job =
     \<lparr>ConversionJob.InputPath = ''/in/p.png'', ConversionJob.OutputPath = ''/out/p.jpg'',
      ConversionJob.OutputFormat = ''jpg'', OverwriteOutput = False\<rparr>"

definition demo_row :: Conversion where
  "demo_row =
     \<lparr>ID = 1, Conversion.InputPath = ''/in/p.png'', Conversion.OutputPath = ''/out/p.jpg'',
      InputFormat = ''.png'', Conversion.OutputFormat = ''jpg'', FileType = ''image'',
      FileSize = 30, Conversion.OutputSize = 0, Conversion.Status = ''processing'',
      Conversion.ErrorMessage = [], Progress = 0\<rparr>"

definition demo_tracking :: "demo_world tracking" where
  "demo_tracking = \<lparr>world = demo_album, journal = [], captured = demo_row\<rparr>"

definition two_request :: BatchConversionRequest where
  "two_request =
     \<lparr>Files = [''/in/p.png'', ''/in/a.mov''], BatchConversionRequest.OutputFormat = ''webp'',
      OutputDirectory = ''/out'', NamingMode = NamingModeOriginal, CustomNames = [],
      MakeCopies = False\<rparr>"

definition demo_checked :: "demo_world tracking" where
  "demo_checked =
     \<lparr>world = demo_album,
      journal =
        [ConvertCall ImageConverter picture_job,
         RepoUpdateCall (demo_row\<lparr>Progress := 10\<rparr>),
         RepoUpdateCall (demo_row\<lparr>Progress := 20\<rparr>),
         RepoUpdateCall (demo_row\<lparr>Progress := 50\<rparr>),
         MkdirAllCall ''/out''],
      captured = demo_row\<lparr>Progress := 50\<rparr>\<rparr>"

section \<open>The job planner as the specification words it\<close>


section \<open>Validation as the specification words it\<close>

text \<open>
  A path resolves when its file information can be read and its category is known. The
  valid files of a list of paths are the resolved path that comes first and every later
  resolved path of the same category: the category of the first resolved path is the
  required one.
\<close>

definition resolved :: "'w env \<Rightarrow> 'w \<Rightarrow> string \<Rightarrow> FileInfo option" where
  "resolved e w path =
     (case GetFileInfo e w path of
        Inl err \<Rightarrow> None
      | Inr info \<Rightarrow> if Type info = FileTypeUnknown then None else Some info)"

definition valid_files :: "'w env \<Rightarrow> 'w \<Rightarrow> string list \<Rightarrow> FileInfo list" where
  "valid_files e w paths =
     (case List.map_filter (resolved e w) paths of
        [] \<Rightarrow> []
      | first # others \<Rightarrow> first # filter (\<lambda>info. Type info = Type first) others)"

text \<open>The message kept for a path that does not resolve.\<close>

definition path_message :: "'w env \<Rightarrow> 'w \<Rightarrow> string \<Rightarrow> string" where
  "path_message e w path =
     (case GetFileInfo e w path of
        Inl err \<Rightarrow> Base path @ '': '' @ err
      | Inr info \<Rightarrow> Name info @ '': unsupported file format'')"

section \<open>Reading the journal\<close>

fun is_ConvertCall :: "call \<Rightarrow> bool" where
  "is_ConvertCall (ConvertCall c job) = True"
| "is_ConvertCall other = False"

text \<open>A journal entry is fine when it is no hand-over to an adapter, or one whose job
  allows overwriting.\<close>

fun overwrite_enabled :: "call \<Rightarrow> bool" where
  "overwrite_enabled (ConvertCall c job) = OverwriteOutput job"
| "overwrite_enabled other = True"

text \<open>The calls that write the conversion history.\<close>

fun history_call :: "call \<Rightarrow> bool" where
  "history_call (RepoCreateCall conversion) = True"
| "history_call (RepoUpdateCall conversion) = True"
| "history_call other = False"

text \<open>
  The calls that read the input with a tool or write the output: probing and running the
  FFmpeg command, the native export, and creating and encoding the output file of a
  picture.
\<close>

fun transcoder_call :: "call \<Rightarrow> bool" where
  "transcoder_call (ProbeCall args) = True"
| "transcoder_call (ExecCall args) = True"
| "transcoder_call (AVFCall inputPath outputPath preset) = True"
| "transcoder_call (CreateCall path) = True"
| "transcoder_call (EncodeCall codec path) = True"
| "transcoder_call other = False"

text \<open>
  The journal entries that one progress report adds. A progress callback keeps to the
  history when a report leaves the journal it finds in place and adds nothing but writes
  of the history, as the callback of \<^verbatim>\<open>ConvertFile\<close> does.
\<close>

definition callback_events ::
  "('w, 'z) callback \<Rightarrow> real \<Rightarrow> ('w, 'z) state_scheme \<Rightarrow> call list" where
  "callback_events progressCallback progress st =
     drop (length (journal st)) (journal (report progressCallback progress st))"

definition history_only :: "('w, 'z) callback \<Rightarrow> bool" where
  "history_only progressCallback =
     (\<forall>progress st.
        take (length (journal st)) (journal (report progressCallback progress st)) = journal st
        \<and> list_all history_call (callback_events progressCallback progress st))"

text \<open>
  What every adapter guarantees about the result it returns, and what it means that the
  journal has only grown, by no hand-over to an adapter.
\<close>

definition adapter_post ::
  "ConversionJob \<Rightarrow> ConversionResult \<times> error option \<Rightarrow> bool" where
  "adapter_post job out =
     (case out of
        (r, err) \<Rightarrow>
          ConversionResult.InputPath r = ConversionJob.InputPath job
          \<and> ConversionResult.OutputPath r = ConversionJob.OutputPath job
          \<and> Success r = (err = None))"

definition journal_quiet :: "('w, 'z) state_scheme \<Rightarrow> ('w, 'z) state_scheme \<Rightarrow> bool" where
  "journal_quiet st st' =
     (take (length (journal st)) (journal st') = journal st
      \<and> \<not> list_ex is_ConvertCall (drop (length (journal st)) (journal st')))"

section \<open>The results of a batch\<close>

text \<open>The result that the batch loop records for a path that failed with an error.\<close>

definition failure_result :: "string \<Rightarrow> string \<Rightarrow> error \<Rightarrow> ConversionResult" where
  "failure_result inputPath outputPath err =
     \<lparr>Success = False, ConversionResult.InputPath = inputPath,
      ConversionResult.OutputPath = outputPath, ConversionResult.OutputSize = 0,
      ConversionResult.ErrorMessage = err\<rparr>"

text \<open>The state after the batch has reported the end of an item to its own callback.\<close>

definition after_item ::
  "(ConversionProgress \<Rightarrow> 'w \<Rightarrow> 'w) option \<Rightarrow> BatchConversionRequest \<Rightarrow> nat \<Rightarrow> string \<Rightarrow>
   'w state \<Rightarrow> 'w state" where
  "after_item progressCallback request i inputPath st =
     (case progressCallback of
        None \<Rightarrow> st
      | Some callback \<Rightarrow>
          st\<lparr>world :=
               callback
                 \<lparr>ConversionProgress.InputPath = inputPath,
                  ConversionProgress.Progress =
                    real (i + 1) / real (length (Files request)) * 100,
                  ConversionProgress.Status = StatusCompleted\<rparr>
                 (world st)\<rparr>)"

text \<open>
  The results of a batch capture what happened to each path. Going through the paths in
  order, from the state the earlier paths have left behind: a path whose file information
  cannot be read has the failed result with that error as its message; a path whose
  conversion returns an error has the failed result with that error as its message and
  the planned output path; any other path has the successful result that its conversion
  returned.
\<close>

fun results_capture ::
  "'w env \<Rightarrow> 'w conversionServiceImpl \<Rightarrow> BatchConversionRequest \<Rightarrow>
   (ConversionProgress \<Rightarrow> 'w \<Rightarrow> 'w) option \<Rightarrow> nat \<Rightarrow> string list \<Rightarrow> 'w state \<Rightarrow>
   ConversionResult list \<Rightarrow> bool" where
  "results_capture e s request progressCallback i [] st results = (results = [])"
| "results_capture e s request progressCallback i (inputPath # rest) st [] = False"
| "results_capture e s request progressCallback i (inputPath # rest) st (r # rs) =
     (case GetFileInfo e (world st) inputPath of
        Inl err \<Rightarrow>
          r = failure_result inputPath [] err
          \<and> results_capture e s request progressCallback (Suc i) rest st rs
      | Inr info \<Rightarrow>
          (case ConvertFile e s st (ConvertBatch_job request i inputPath) of
             ((convResult, convErr), st1) \<Rightarrow>
               (case convErr of
                  Some err \<Rightarrow>
                    r = failure_result inputPath
                          (ConversionJob.OutputPath (ConvertBatch_job request i inputPath)) err
                | None \<Rightarrow> convResult = Some r \<and> Success r)
               \<and> results_capture e s request progressCallback (Suc i) rest
                    (after_item progressCallback request i inputPath st1) rs))"

section \<open>Conditions on a job and its surroundings\<close>

text \<open>
  The state in which an adapter looks for the output path, when it gets that far: the
  video adapters have found the input file and made the output directory; the image adapter
  has reported 10, opened the input, reported 20, decoded it, reported 50 and made the
  output directory.
\<close>

definition at_output_check ::
  "'w env \<Rightarrow> Converter \<Rightarrow> ('w, 'z) callback \<Rightarrow> ('w, 'z) state_scheme \<Rightarrow> ConversionJob \<Rightarrow>
   ('w, 'z) state_scheme option" where
  "at_output_check e c progressCallback st job =
     (let st0 = st\<lparr>journal := journal st @ [ConvertCall c job]\<rparr>;
          inputPath = ConversionJob.InputPath job;
          outputPath = ConversionJob.OutputPath job;
          video =
            (if os_Stat e (world st0) inputPath = StatNotExist then None
             else
               case do_MkdirAll e st0 (Dir outputPath) of
                 (Some err, st1) \<Rightarrow> None
               | (None, st1) \<Rightarrow> Some st1)
      in
      case c of
        FFmpegVideoConverter \<Rightarrow> video
      | AVFVideoConverter \<Rightarrow> video
      | ImageConverter \<Rightarrow>
          (let st1 = report progressCallback 10 st0 in
           case os_Open e (world st1) inputPath of
             Some err \<Rightarrow> None
           | None \<Rightarrow>
               (let st2 = report progressCallback 20 st1 in
                case image_Decode e (world st2)
                       (image_decoder
                          (ToLower (unicode_ToLower e) (TrimPrefix (Ext inputPath) ''.'')))
                       inputPath of
                  Some err \<Rightarrow> None
                | None \<Rightarrow>
                    (case do_MkdirAll e (report progressCallback 50 st2) (Dir outputPath) of
                       (Some err, st4) \<Rightarrow> None
                     | (None, st4) \<Rightarrow> Some st4))))"

text \<open>The error an adapter returns for an output path that is taken; the native adapter
  passes its message through \<^verbatim>\<open>fmt.Errorf\<close> as a format string.\<close>

definition already_exists_error :: "'w env \<Rightarrow> Converter \<Rightarrow> ConversionJob \<Rightarrow> error" where
  "already_exists_error e c job =
     (case c of
        FFmpegVideoConverter \<Rightarrow> ''Output file already exists: '' @ ConversionJob.OutputPath job
      | AVFVideoConverter \<Rightarrow>
          fmt_Errorf e (''Output file already exists: '' @ ConversionJob.OutputPath job)
      | ImageConverter \<Rightarrow> ''Output file already exists: '' @ ConversionJob.OutputPath job)"

text \<open>The target format the FFmpeg adapter reads off the output path.\<close>

definition target_format :: "'w env \<Rightarrow> ConversionJob \<Rightarrow> string" where
  "target_format e job =
     TrimPrefix (ToLower (unicode_ToLower e) (Ext (ConversionJob.OutputPath job))) ''.''"

text \<open>The FFmpeg adapter gets as far as starting the transcoder.\<close>

definition transcode_reached ::
  "'w env \<Rightarrow> ('w, 'z) state_scheme \<Rightarrow> ConversionJob \<Rightarrow> bool" where
  "transcode_reached e st job =
     (os_Stat e (world st) (ConversionJob.InputPath job) \<noteq> StatNotExist
      \<and> fst (os_MkdirAll e (world st) (Dir (ConversionJob.OutputPath job))) = None
      \<and> (OverwriteOutput job
         \<or> \<not> stat_ok (os_Stat e
                (snd (os_MkdirAll e (world st) (Dir (ConversionJob.OutputPath job))))
                (ConversionJob.OutputPath job))))"

text \<open>The arguments that name a codec pair; an empty codec is not named.\<close>

definition codec_args :: "string \<times> string \<Rightarrow> string list" where
  "codec_args codecs =
     (case codecs of
        (videoCodec, audioCodec) \<Rightarrow>
          (if videoCodec \<noteq> [] then [''-c:v'', videoCodec] else []) @
          (if audioCodec \<noteq> [] then [''-c:a'', audioCodec] else []))"

section \<open>Evaluation rules\<close>

lemmas path_defs =
  TrimSuffix_def HasSuffix_def TrimPrefix_def HasPrefix_def Base_def Ext_def Join_def
  Clean_def Dir_def IsPathSeparator_def ToLower_def isASCII_def lower_char_def

lemmas const_defs =
  FileTypeVideo_def FileTypeImage_def FileTypeUnknown_def NamingModeOriginal_def
  NamingModeCustom_def StatusProcessing_def StatusCompleted_def StatusFailed_def
  StatusCancelled_def

section \<open>Output path planning\<close>


section \<open>File validation\<close>

lemma demo_info_a:
  "GetFileInfo demo_env demo_files ''/in/a.mp4'' =
     Inr \<lparr>Path = ''/in/a.mp4'', Name = ''a.mp4'', Extension = ''.mp4'', Size = 10,
          Type = ''video''\<rparr>"
  by (simp add: GetFileInfo_def demo_env_def demo_files_def demo_Stat_def demo_GetFileType_def
      const_defs path_defs Let_def)

lemma demo_info_b:
  "GetFileInfo demo_env demo_files ''/in/b.mp4'' =
     Inr \<lparr>Path = ''/in/b.mp4'', Name = ''b.mp4'', Extension = ''.mp4'', Size = 20,
          Type = ''video''\<rparr>"
  by (simp add: GetFileInfo_def demo_env_def demo_files_def demo_Stat_def demo_GetFileType_def
      const_defs path_defs Let_def)

lemma demo_info_missing:
  "GetFileInfo demo_env demo_files ''/in/missing.mp4'' =
     Inl ''file not found: /in/missing.mp4''"
  by (simp add: GetFileInfo_def demo_env_def demo_files_def demo_Stat_def demo_GetFileType_def
      const_defs path_defs Let_def)

text \<open>
  Claim C2. The required category should come from the first path that resolves. The
  loop sets it only at index 0: with a first path that does not exist, it stays the empty
  string and the two video files behind it are both turned away as mixed types, so the
  whole call fails.
\<close>

theorem ValidateFiles_first_path_missing:
  "ValidateFiles demo_env demo_files [''/in/missing.mp4'', ''/in/a.mp4'', ''/in/b.mp4''] =
     Inl ''no valid files found: missing.mp4: file not found: /in/missing.mp4; a.mp4: mixed file types not allowed (expected , got video); b.mp4: mixed file types not allowed (expected , got video)''"
  by (simp add: ValidateFiles_def demo_info_a demo_info_b demo_info_missing FileTypeUnknown_def
      Base_def IsPathSeparator_def)

text \<open>
  The run above is no accident of its world. Whenever the first path does not resolve and
  the extension table never answers with the empty string, no later path is accepted and
  the call fails, whatever the other paths are.
\<close>

lemma GetFileInfo_Type:
  "GetFileInfo e w path = Inr info \<Longrightarrow> Type info = GetFileType e (Extension info)"
  by (auto simp: GetFileInfo_def Let_def split: stat_result.splits if_splits)

lemma ValidateFiles_loop_no_category:
  assumes "\<And>ext. GetFileType e ext \<noteq> []" and "0 < i"
    and "ValidateFiles_loop e w i paths ([], errors, []) = (files', errors', firstType')"
  shows "files' = []"
  using assms(2,3)
proof (induction paths arbitrary: i errors)
  case Nil
  then show ?case by simp
next
  case (Cons path paths)
  show ?case
  proof (cases "GetFileInfo e w path")
    case (Inl err)
    with Cons.prems(2) have
      "ValidateFiles_loop e w (Suc i) paths ([], errors @ [Base path @ '': '' @ err], []) =
         (files', errors', firstType')"
      by simp
    then show ?thesis using Cons.IH [of "Suc i"] by simp
  next
    case (Inr info)
    have typed: "Type info \<noteq> []"
      using GetFileInfo_Type [OF Inr] assms(1) by simp
    from Cons.prems Inr typed obtain msg where
      "ValidateFiles_loop e w (Suc i) paths ([], errors @ [msg], []) =
         (files', errors', firstType')"
      by (auto split: if_splits)
    then show ?thesis using Cons.IH [of "Suc i"] by simp
  qed
qed

lemma ValidateFiles_first_unresolved:
  assumes "\<And>ext. GetFileType e ext \<noteq> []" and "GetFileInfo e w path = Inl err"
  shows "\<exists>msg. ValidateFiles e w (path # paths) = Inl msg"
proof -
  obtain files' errors' firstType' where loop:
    "ValidateFiles_loop e w (Suc 0) paths ([], [Base path @ '': '' @ err], []) =
       (files', errors', firstType')"
    by (cases "ValidateFiles_loop e w (Suc 0) paths ([], [Base path @ '': '' @ err], [])") auto
  have "files' = []"
    using ValidateFiles_loop_no_category [OF assms(1) _ loop] by simp
  then show ?thesis
    using assms(2) loop by (simp add: ValidateFiles_def)
qed

text \<open>
  Claim C3, as stated, fails: with one missing path between two valid ones the loop
  collects a message, and the call returns the two valid entries and nothing else.
\<close>

theorem ValidateFiles_drops_messages:
  "ValidateFiles_loop demo_env demo_files 0 [''/in/a.mp4'', ''/in/missing.mp4'', ''/in/b.mp4'']
       ([], [], []) =
     ([\<lparr>Path = ''/in/a.mp4'', Name = ''a.mp4'', Extension = ''.mp4'', Size = 10,
        Type = ''video''\<rparr>,
       \<lparr>Path = ''/in/b.mp4'', Name = ''b.mp4'', Extension = ''.mp4'', Size = 20,
        Type = ''video''\<rparr>],
      [''missing.mp4: file not found: /in/missing.mp4''], ''video'')
   \<and> ValidateFiles demo_env demo_files [''/in/a.mp4'', ''/in/missing.mp4'', ''/in/b.mp4''] =
     Inr [\<lparr>Path = ''/in/a.mp4'', Name = ''a.mp4'', Extension = ''.mp4'', Size = 10,
           Type = ''video''\<rparr>,
          \<lparr>Path = ''/in/b.mp4'', Name = ''b.mp4'', Extension = ''.mp4'', Size = 20,
           Type = ''video''\<rparr>]"
  by (simp add: ValidateFiles_def demo_info_a demo_info_b demo_info_missing FileTypeUnknown_def
      Base_def IsPathSeparator_def)

text \<open>
  What the loop keeps once the first path is behind it, and what it does with paths of
  which none resolves.
\<close>

lemma loop_after_first:
  "0 < i \<Longrightarrow>
   fst (ValidateFiles_loop e w i paths (files, errors, firstType)) =
     files @ filter (\<lambda>info. Type info = firstType) (List.map_filter (resolved e w) paths)"
proof (induction paths arbitrary: i files errors)
  case Nil
  then show ?case by (simp add: List.map_filter_simps)
next
  case (Cons path paths)
  from Cons.prems have next_ok: "0 < Suc i" by simp
  show ?case
    using Cons.prems Cons.IH [OF next_ok]
    by (cases "GetFileInfo e w path")
       (auto simp: List.map_filter_simps resolved_def)
qed

lemma loop_none_resolves:
  "List.map_filter (resolved e w) paths = [] \<Longrightarrow>
   ValidateFiles_loop e w i paths (files, errors, firstType) =
     (files, errors @ map (path_message e w) paths, firstType)"
proof (induction paths arbitrary: i errors)
  case Nil
  then show ?case by simp
next
  case (Cons path paths)
  from Cons.prems have here: "resolved e w path = None"
    and rest: "List.map_filter (resolved e w) paths = []"
    by (auto simp: List.map_filter_simps split: option.splits)
  show ?case
    using here Cons.IH [OF rest]
    by (cases "GetFileInfo e w path")
       (auto simp: resolved_def path_message_def split: if_splits)
qed

text \<open>
  Claim C3, amended. Without paths the call fails with the message that no files were
  provided. When the first path is valid, the call does not fail and returns all valid
  files, in order, whatever is wrong with other paths; the messages for those paths are
  not part of what it returns. When there are paths and none of them is valid, the call
  fails, and its error is made of the messages of all paths. The lists left out here,
  whose first path does not resolve while a later one does, are those of claim C2.
\<close>

theorem ValidateFiles_valid_files:
  "ValidateFiles e w [] = Inl ''no files provided''
   \<and> (resolved e w head \<noteq> None \<longrightarrow>
        ValidateFiles e w (head # tail) = Inr (valid_files e w (head # tail)))
   \<and> (paths \<noteq> [] \<and> valid_files e w paths = [] \<longrightarrow>
        ValidateFiles e w paths =
          Inl (''no valid files found: '' @ strings_Join (map (path_message e w) paths) ''; ''))"
proof (intro conjI impI)
  show "ValidateFiles e w [] = Inl ''no files provided''"
    by (simp add: ValidateFiles_def)
next
  assume "resolved e w head \<noteq> None"
  then obtain info where info: "GetFileInfo e w head = Inr info"
    and known: "Type info \<noteq> FileTypeUnknown" and res: "resolved e w head = Some info"
    by (auto simp: resolved_def split: sum.splits if_splits)
  have step: "ValidateFiles_loop e w 0 (head # tail) ([], [], []) =
      ValidateFiles_loop e w (Suc 0) tail ([info], [], Type info)"
    using info known by simp
  have files: "fst (ValidateFiles_loop e w (Suc 0) tail ([info], [], Type info)) =
      [info] @ filter (\<lambda>i. Type i = Type info) (List.map_filter (resolved e w) tail)"
    by (rule loop_after_first) simp
  have valid: "valid_files e w (head # tail) =
      info # filter (\<lambda>i. Type i = Type info) (List.map_filter (resolved e w) tail)"
    using res by (simp add: valid_files_def List.map_filter_simps)
  show "ValidateFiles e w (head # tail) = Inr (valid_files e w (head # tail))"
    using step files valid
    by (cases "ValidateFiles_loop e w (Suc 0) tail ([info], [], Type info)")
       (auto simp: ValidateFiles_def)
next
  assume a: "paths \<noteq> [] \<and> valid_files e w paths = []"
  then have none: "List.map_filter (resolved e w) paths = []"
    by (auto simp: valid_files_def split: list.splits)
  show "ValidateFiles e w paths =
          Inl (''no valid files found: '' @ strings_Join (map (path_message e w) paths) ''; '')"
    using a loop_none_resolves [OF none, of 0 "[]" "[]" "[]"]
    by (simp add: ValidateFiles_def)
qed

lemma demo_resolved_a:
  "resolved demo_env demo_files ''/in/a.mp4'' =
     Some \<lparr>Path = ''/in/a.mp4'', Name = ''a.mp4'', Extension = ''.mp4'', Size = 10,
           Type = ''video''\<rparr>"
  by (simp add: resolved_def demo_info_a FileTypeUnknown_def)

lemma demo_resolved_b:
  "resolved demo_env demo_files ''/in/b.mp4'' =
     Some \<lparr>Path = ''/in/b.mp4'', Name = ''b.mp4'', Extension = ''.mp4'', Size = 20,
           Type = ''video''\<rparr>"
  by (simp add: resolved_def demo_info_b FileTypeUnknown_def)

lemma demo_resolved_missing: "resolved demo_env demo_files ''/in/missing.mp4'' = None"
  by (simp add: resolved_def demo_info_missing)

theorem ValidateFiles_valid_files_witness:
  "resolved demo_env demo_files ''/in/a.mp4'' \<noteq> None
   \<and> ValidateFiles demo_env demo_files [''/in/a.mp4'', ''/in/missing.mp4'', ''/in/b.mp4''] =
       Inr [\<lparr>Path = ''/in/a.mp4'', Name = ''a.mp4'', Extension = ''.mp4'', Size = 10,
             Type = ''video''\<rparr>,
            \<lparr>Path = ''/in/b.mp4'', Name = ''b.mp4'', Extension = ''.mp4'', Size = 20,
             Type = ''video''\<rparr>]
   \<and> [''/in/missing.mp4''] \<noteq> []
   \<and> valid_files demo_env demo_files [''/in/missing.mp4''] = []
   \<and> ValidateFiles demo_env demo_files [''/in/missing.mp4''] =
       Inl ''no valid files found: missing.mp4: file not found: /in/missing.mp4''"
proof -
  have v1: "valid_files demo_env demo_files [''/in/a.mp4'', ''/in/missing.mp4'', ''/in/b.mp4''] =
      [\<lparr>Path = ''/in/a.mp4'', Name = ''a.mp4'', Extension = ''.mp4'', Size = 10,
             Type = ''video''\<rparr>,
            \<lparr>Path = ''/in/b.mp4'', Name = ''b.mp4'', Extension = ''.mp4'', Size = 20,
             Type = ''video''\<rparr>]"
    by (simp add: valid_files_def List.map_filter_simps demo_resolved_a demo_resolved_b
        demo_resolved_missing)
  have v2: "valid_files demo_env demo_files [''/in/missing.mp4''] = []"
    by (simp add: valid_files_def List.map_filter_simps demo_resolved_missing)
  have m: "path_message demo_env demo_files ''/in/missing.mp4'' =
      ''missing.mp4: file not found: /in/missing.mp4''"
    by (simp add: path_message_def demo_info_missing Base_def IsPathSeparator_def)
  show ?thesis
    using ValidateFiles_valid_files
            [of demo_env demo_files "''/in/a.mp4''" "[''/in/missing.mp4'', ''/in/b.mp4'']"
                "[''/in/missing.mp4'']"]
          v1 v2 m demo_resolved_a
    by simp
qed

section \<open>Progress reports and the journal\<close>

lemma history_call_quiet: "list_all history_call evs \<Longrightarrow> \<not> list_ex is_ConvertCall evs"
  by (induction evs) (auto elim: history_call.elims)

lemma report_journal:
  "history_only cb \<Longrightarrow> journal (report cb p st) = journal st @ callback_events cb p st"
  unfolding history_only_def callback_events_def
  by (metis append_take_drop_id)

lemma callback_events_history:
  "history_only cb \<Longrightarrow> list_all history_call (callback_events cb p st)"
  by (simp add: history_only_def)

lemma callback_events_quiet:
  "history_only cb \<Longrightarrow> \<not> list_ex is_ConvertCall (callback_events cb p st)"
  by (rule history_call_quiet) (rule callback_events_history)

lemma history_only_None: "history_only None"
  by (simp add: history_only_def callback_events_def report_def)

lemma history_only_ConvertFile_progress: "history_only (Some (ConvertFile_progress e))"
  by (auto simp: history_only_def callback_events_def report_def ConvertFile_progress_def
      do_repo_Update_def Let_def split: prod.splits)

lemma do_MkdirAll_journal:
  "do_MkdirAll e st dir = (r, st') \<Longrightarrow> journal st' = journal st @ [MkdirAllCall dir]"
  by (auto simp: do_MkdirAll_def split: prod.splits)

lemma do_Create_journal:
  "do_Create e st path = (r, st') \<Longrightarrow> journal st' = journal st @ [CreateCall path]"
  by (auto simp: do_Create_def split: prod.splits)

lemma do_Encode_journal:
  "do_Encode e st codec path = (r, st') \<Longrightarrow> journal st' = journal st @ [EncodeCall codec path]"
  by (auto simp: do_Encode_def split: prod.splits)

lemma do_Run_journal:
  "do_Run e st args = (r, st') \<Longrightarrow> journal st' = journal st @ [ExecCall args]"
  by (auto simp: do_Run_def split: prod.splits)

lemma do_convertVideo_journal:
  "do_convertVideo e st i out p = (r, st') \<Longrightarrow> journal st' = journal st @ [AVFCall i out p]"
  by (auto simp: do_convertVideo_def split: prod.splits)

lemma do_repo_Create_journal:
  "do_repo_Create e st c = (r, c', st') \<Longrightarrow> journal st' = journal st @ [RepoCreateCall c]"
  by (auto simp: do_repo_Create_def split: prod.splits)

lemma do_repo_Update_journal:
  "do_repo_Update e st c = (r, st') \<Longrightarrow> journal st' = journal st @ [RepoUpdateCall c]"
  by (auto simp: do_repo_Update_def split: prod.splits)

lemma GetDuration_journal:
  "GetDuration e st inputPath = (d, st') \<Longrightarrow>
   journal st' = journal st @ [ProbeCall [''-i'', inputPath, ''-hide_banner'']]"
  by (auto simp: GetDuration_def do_CombinedOutput_def split: prod.splits option.splits)

lemma ffmpeg_Convert_journal:
  assumes "history_only cb" and "ffmpeg_Convert e cb st opts = (err, st')"
  shows "\<exists>evs. journal st' = journal st @
     [ProbeCall [''-i'', ConvertOptions.InputPath opts, ''-hide_banner''],
      ExecCall (Convert_args opts)] @ evs \<and> list_all history_call evs"
  using assms(2) report_journal [OF assms(1)] callback_events_history [OF assms(1)]
  by (auto simp: ffmpeg_Convert_def split: prod.splits exec_result.splits
      dest!: GetDuration_journal do_Run_journal)

lemma ffmpeg_ConvertToGif_journal:
  assumes "history_only cb"
    and "ffmpeg_ConvertToGif e cb st inputPath outputPath overwrite = (err, st')"
  shows "\<exists>evs. journal st' = journal st @
     [ProbeCall [''-i'', inputPath, ''-hide_banner''],
      ExecCall (ConvertToGif_args inputPath outputPath overwrite)] @ evs
     \<and> list_all history_call evs"
  using assms(2) report_journal [OF assms(1)] callback_events_history [OF assms(1)]
  by (auto simp: ffmpeg_ConvertToGif_def split: prod.splits exec_result.splits
      dest!: GetDuration_journal do_Run_journal)

section \<open>The adapters and the hand-over of a job\<close>

lemma ffmpegVideoConverter_post:
  "adapter_post job (fst (ffmpegVideoConverter_Convert e cb st job))"
  unfolding adapter_post_def ffmpegVideoConverter_Convert_def
  by (auto simp: Let_def failed_def succeeded_def new_result_def
      split: prod.splits option.splits)

lemma avfVideoConverter_post:
  "adapter_post job (fst (avfVideoConverter_Convert e cb st job))"
  unfolding adapter_post_def avfVideoConverter_Convert_def
  by (auto simp: Let_def failed_def succeeded_def new_result_def
      split: prod.splits option.splits)

lemma imageConverter_post:
  "adapter_post job (fst (imageConverter_Convert e cb st job))"
  unfolding adapter_post_def imageConverter_Convert_def
  by (auto simp: Let_def failed_def succeeded_def new_result_def
      split: prod.splits option.splits sum.splits)

lemma journal_quiet_refl: "journal_quiet st st"
  by (simp add: journal_quiet_def)

lemma journal_quiet_trans:
  "journal_quiet st st1 \<Longrightarrow> journal_quiet st1 st2 \<Longrightarrow> journal_quiet st st2"
proof -
  assume a: "journal_quiet st st1" and b: "journal_quiet st1 st2"
  obtain e1 where e1: "journal st1 = journal st @ e1" "\<not> list_ex is_ConvertCall e1"
    using a unfolding journal_quiet_def by (metis append_take_drop_id)
  obtain e2 where e2: "journal st2 = journal st1 @ e2" "\<not> list_ex is_ConvertCall e2"
    using b unfolding journal_quiet_def by (metis append_take_drop_id)
  show ?thesis using e1 e2 by (simp add: journal_quiet_def)
qed

lemma journal_quietI:
  "journal st' = journal st @ evs \<Longrightarrow> \<not> list_ex is_ConvertCall evs \<Longrightarrow> journal_quiet st st'"
  by (simp add: journal_quiet_def)

lemma report_quiet: "history_only cb \<Longrightarrow> journal_quiet st (report cb p st)"
  by (rule journal_quietI [OF report_journal callback_events_quiet])

lemma do_MkdirAll_quiet: "do_MkdirAll e st dir = (r, st') \<Longrightarrow> journal_quiet st st'"
  by (drule do_MkdirAll_journal) (simp add: journal_quiet_def)

lemma do_convertVideo_quiet:
  "do_convertVideo e st i out p = (r, st') \<Longrightarrow> journal_quiet st st'"
  by (drule do_convertVideo_journal) (simp add: journal_quiet_def)

lemma ffmpeg_Convert_quiet:
  assumes "history_only cb" and "ffmpeg_Convert e cb st opts = (err, st')"
  shows "journal_quiet st st'"
  using ffmpeg_Convert_journal [OF assms]
  by (auto simp: journal_quiet_def dest: history_call_quiet)

lemma ffmpeg_ConvertToGif_quiet:
  assumes "history_only cb" and "ffmpeg_ConvertToGif e cb st i out ow = (err, st')"
  shows "journal_quiet st st'"
  using ffmpeg_ConvertToGif_journal [OF assms]
  by (auto simp: journal_quiet_def dest: history_call_quiet)

lemma ffmpegVideoConverter_quiet:
  assumes "history_only cb"
  shows "journal_quiet st (snd (ffmpegVideoConverter_Convert e cb st job))"
  unfolding ffmpegVideoConverter_Convert_def
  by (auto simp: Let_def failed_def journal_quiet_refl
      split: prod.splits option.splits
      intro: do_MkdirAll_quiet
        journal_quiet_trans [OF do_MkdirAll_quiet ffmpeg_Convert_quiet [OF assms]]
        journal_quiet_trans [OF do_MkdirAll_quiet ffmpeg_ConvertToGif_quiet [OF assms]])

lemma avfVideoConverter_quiet:
  assumes "history_only cb"
  shows "journal_quiet st (snd (avfVideoConverter_Convert e cb st job))"
  unfolding avfVideoConverter_Convert_def
  by (auto simp: Let_def failed_def journal_quiet_refl
      split: prod.splits option.splits
      intro: do_MkdirAll_quiet
        journal_quiet_trans [OF do_MkdirAll_quiet do_convertVideo_quiet]
        journal_quiet_trans [OF do_MkdirAll_quiet
          journal_quiet_trans [OF do_convertVideo_quiet report_quiet [OF assms]]])

lemma imageConverter_quiet:
  assumes h: "history_only cb"
  shows "journal_quiet st (snd (imageConverter_Convert e cb st job))"
  unfolding imageConverter_Convert_def journal_quiet_def
  by (auto simp: Let_def failed_def report_journal [OF h] callback_events_quiet [OF h]
      split: prod.splits option.splits sum.splits
      dest!: do_MkdirAll_journal do_Create_journal do_Encode_journal)

lemma Converter_Convert_post:
  assumes "Converter_Convert e c cb st job = ((r, err), st')"
  shows "ConversionResult.InputPath r = ConversionJob.InputPath job
   \<and> ConversionResult.OutputPath r = ConversionJob.OutputPath job
   \<and> Success r = (err = None)"
proof -
  define st0 where "st0 = st\<lparr>journal := journal st @ [ConvertCall c job]\<rparr>"
  have "adapter_post job (r, err)"
  proof (cases c)
    case FFmpegVideoConverter
    then show ?thesis
      using assms ffmpegVideoConverter_post [of job e cb st0]
      by (simp add: Converter_Convert_def st0_def)
  next
    case AVFVideoConverter
    then show ?thesis
      using assms avfVideoConverter_post [of job e cb st0]
      by (simp add: Converter_Convert_def st0_def)
  next
    case ImageConverter
    then show ?thesis
      using assms imageConverter_post [of job e cb st0]
      by (simp add: Converter_Convert_def st0_def)
  qed
  then show ?thesis by (simp add: adapter_post_def)
qed

lemma Converter_Convert_journal:
  assumes h: "history_only cb" and run: "Converter_Convert e c cb st job = (out, st')"
  shows "\<exists>evs. journal st' = journal st @ ConvertCall c job # evs
           \<and> \<not> list_ex is_ConvertCall evs"
proof -
  define st0 where "st0 = st\<lparr>journal := journal st @ [ConvertCall c job]\<rparr>"
  have "journal_quiet st0 st'"
  proof (cases c)
    case FFmpegVideoConverter
    then show ?thesis
      using run ffmpegVideoConverter_quiet [OF h, of st0 e job]
      by (simp add: Converter_Convert_def st0_def)
  next
    case AVFVideoConverter
    then show ?thesis
      using run avfVideoConverter_quiet [OF h, of st0 e job]
      by (simp add: Converter_Convert_def st0_def)
  next
    case ImageConverter
    then show ?thesis
      using run imageConverter_quiet [OF h, of st0 e job]
      by (simp add: Converter_Convert_def st0_def)
  qed
  then have keep: "take (length (journal st0)) (journal st') = journal st0"
    and quiet: "\<not> list_ex is_ConvertCall (drop (length (journal st0)) (journal st'))"
    by (simp_all add: journal_quiet_def)
  have "journal st' = journal st0 @ drop (length (journal st0)) (journal st')"
    using keep append_take_drop_id [of "length (journal st0)" "journal st'"] by simp
  then have "journal st' =
      journal st @ ConvertCall c job # drop (length (journal st0)) (journal st')"
    by (simp add: st0_def)
  with quiet show ?thesis by blast
qed

lemma ConvertFile_journal:
  assumes run: "ConvertFile e s st job = ((ro, err), st')"
  shows "(err = None \<longrightarrow>
      (\<exists>r. ro = Some r
           \<and> ConversionResult.InputPath r = ConversionJob.InputPath job
           \<and> ConversionResult.OutputPath r = ConversionJob.OutputPath job
           \<and> Success r))
   \<and> (\<exists>evs. journal st' = journal st @ evs
          \<and> list_all (\<lambda>c. case c of ConvertCall cv j \<Rightarrow> j = job | _ \<Rightarrow> True) evs)"
proof (cases "GetFileInfo e (world st) (ConversionJob.InputPath job)")
  case (Inl msg)
  with run have "err = Some msg" "st' = st"
    by (simp_all add: ConvertFile_def)
  then show ?thesis by simp
next
  case (Inr fileInfo)
  define conversion0 where "conversion0 =
    \<lparr>ID = 0,
     Conversion.InputPath = ConversionJob.InputPath job,
     Conversion.OutputPath = ConversionJob.OutputPath job,
     InputFormat = Extension fileInfo,
     Conversion.OutputFormat = ConversionJob.OutputFormat job,
     FileType = Type fileInfo,
     FileSize = Size fileInfo,
     Conversion.OutputSize = 0,
     Conversion.Status = StatusProcessing,
     Conversion.ErrorMessage = [],
     Progress = 0\<rparr>"
  obtain createErr created st1 where
    create: "do_repo_Create e st conversion0 = (createErr, created, st1)"
    by (cases "do_repo_Create e st conversion0") auto
  have j1: "journal st1 = journal st @ [RepoCreateCall conversion0]"
    using create by (rule do_repo_Create_journal)
  show ?thesis
  proof (cases "Type fileInfo = FileTypeVideo \<or> Type fileInfo = FileTypeImage")
    case False
    with run Inr create have "err = Some (''unsupported file type: '' @ Type fileInfo)" "st' = st1"
      by (simp_all add: ConvertFile_def conversion0_def)
    with j1 show ?thesis by simp
  next
    case True
    define converter where "converter =
      (if Type fileInfo = FileTypeVideo then videoConverter s else imageConverter s)"
    define t1 :: "'a tracking" where
      "t1 = \<lparr>world = world st1, journal = journal st1, captured = created\<rparr>"
    obtain result err2 t2 where
      conv: "Converter_Convert e converter (Some (ConvertFile_progress e)) t1 job =
               ((result, err2), t2)"
      by (cases "Converter_Convert e converter (Some (ConvertFile_progress e)) t1 job") auto
    define conversion2 where "conversion2 =
      (case err2 of
         Some msg \<Rightarrow> (captured t2)\<lparr>Conversion.Status := StatusFailed,
                                   Conversion.ErrorMessage := msg\<rparr>
       | None \<Rightarrow> (captured t2)\<lparr>Conversion.Status := StatusCompleted,
                               Conversion.OutputSize := ConversionResult.OutputSize result\<rparr>)"
    obtain updateErr t3 where
      upd: "do_repo_Update e t2 conversion2 = (updateErr, t3)"
      by (cases "do_repo_Update e t2 conversion2") auto
    have res: "ro = Some result" "err = err2" "journal st' = journal t3"
      using run Inr create True conv upd
      by (auto simp: ConvertFile_def conversion0_def converter_def conversion2_def t1_def
          split: if_splits)
    from Converter_Convert_post [OF conv] have
      r: "ConversionResult.InputPath result = ConversionJob.InputPath job"
         "ConversionResult.OutputPath result = ConversionJob.OutputPath job"
         "Success result = (err2 = None)"
      by simp_all
    from Converter_Convert_journal [OF history_only_ConvertFile_progress conv] obtain evs where
      j2: "journal t2 = journal t1 @ ConvertCall converter job # evs"
      and quiet: "\<not> list_ex is_ConvertCall evs"
      by blast
    have j3: "journal t3 = journal t2 @ [RepoUpdateCall conversion2]"
      using upd by (rule do_repo_Update_journal)
    have evs_ok: "list_all (\<lambda>c. case c of ConvertCall cv j \<Rightarrow> j = job | _ \<Rightarrow> True) evs"
      using quiet
      by (induction evs) (auto split: call.splits)
    have "journal st' = journal st @
        (RepoCreateCall conversion0 # ConvertCall converter job # evs @
         [RepoUpdateCall conversion2])"
      using res j1 j2 j3 by (simp add: t1_def)
    moreover have "list_all (\<lambda>c. case c of ConvertCall cv j \<Rightarrow> j = job | _ \<Rightarrow> True)
        (RepoCreateCall conversion0 # ConvertCall converter job # evs @
         [RepoUpdateCall conversion2])"
      using evs_ok by simp
    ultimately show ?thesis using res r by blast
  qed
qed

section \<open>Batch conversion\<close>

lemma ConvertBatch_job_overwrite: "OverwriteOutput (ConvertBatch_job request i inputPath)"
  by (simp add: ConvertBatch_job_def Let_def)

lemma ConvertBatch_job_input:
  "ConversionJob.InputPath (ConvertBatch_job request i inputPath) = inputPath"
  by (simp add: ConvertBatch_job_def Let_def)

lemma ConvertBatch_loop_post:
  "\<exists>res' st' new evs.
     ConvertBatch_loop e s request pc i rest (res, st) = Some (res', st')
     \<and> TotalFiles res' = TotalFiles res
     \<and> Results res' = Results res @ new
     \<and> map ConversionResult.InputPath new = rest
     \<and> results_capture e s request pc i rest st new
     \<and> SuccessCount res' = SuccessCount res + int (length (filter Success new))
     \<and> FailCount res' = FailCount res + int (length (filter (\<lambda>r. \<not> Success r) new))
     \<and> journal st' = journal st @ evs
     \<and> list_all overwrite_enabled evs"
proof (induction rest arbitrary: i res st)
  case Nil
  show ?case by simp
next
  case (Cons inputPath rest)
  show ?case
  proof (cases "GetFileInfo e (world st) inputPath")
    case (Inl msg)
    define entry where "entry = failure_result inputPath [] msg"
    define res1 where "res1 = res\<lparr>Results := Results res @ [entry],
                                  FailCount := FailCount res + 1\<rparr>"
    have step: "ConvertBatch_loop e s request pc i (inputPath # rest) (res, st) =
        ConvertBatch_loop e s request pc (Suc i) rest (res1, st)"
      using Inl by (simp add: res1_def entry_def failure_result_def)
    from Cons.IH [of "Suc i" res1 st] obtain res' st' new evs where
      ih: "ConvertBatch_loop e s request pc (Suc i) rest (res1, st) = Some (res', st')"
          "TotalFiles res' = TotalFiles res1"
          "Results res' = Results res1 @ new"
          "map ConversionResult.InputPath new = rest"
          "results_capture e s request pc (Suc i) rest st new"
          "SuccessCount res' = SuccessCount res1 + int (length (filter Success new))"
          "FailCount res' = FailCount res1 + int (length (filter (\<lambda>r. \<not> Success r) new))"
          "journal st' = journal st @ evs"
          "list_all overwrite_enabled evs"
      by blast
    have "ConvertBatch_loop e s request pc i (inputPath # rest) (res, st) = Some (res', st')"
      using step ih(1) by simp
    moreover have "TotalFiles res' = TotalFiles res"
      using ih(2) by (simp add: res1_def)
    moreover have "Results res' = Results res @ (entry # new)"
      using ih(3) by (simp add: res1_def)
    moreover have "map ConversionResult.InputPath (entry # new) = inputPath # rest"
      using ih(4) by (simp add: entry_def failure_result_def)
    moreover have "results_capture e s request pc i (inputPath # rest) st (entry # new)"
      using ih(5) Inl by (simp add: entry_def)
    moreover have "SuccessCount res' =
        SuccessCount res + int (length (filter Success (entry # new)))"
      using ih(6) by (simp add: res1_def entry_def failure_result_def)
    moreover have "FailCount res' =
        FailCount res + int (length (filter (\<lambda>r. \<not> Success r) (entry # new)))"
      using ih(7) by (simp add: res1_def entry_def failure_result_def)
    ultimately show ?thesis
      using ih(8,9)
      by (intro exI [of _ res'] exI [of _ st'] exI [of _ "entry # new"] exI [of _ evs]) simp
  next
    case (Inr info)
    define job where "job = ConvertBatch_job request i inputPath"
    obtain convResult convErr st1 where
      conv: "ConvertFile e s st job = ((convResult, convErr), st1)"
      by (cases "ConvertFile e s st job") auto
    define st2 where "st2 = after_item pc request i inputPath st1"
    have st2_journal: "journal st2 = journal st1"
      by (simp add: st2_def after_item_def split: option.splits)
    from ConvertFile_journal [OF conv] obtain evs1 where
      ok: "convErr = None \<longrightarrow>
            (\<exists>r. convResult = Some r
                 \<and> ConversionResult.InputPath r = ConversionJob.InputPath job
                 \<and> ConversionResult.OutputPath r = ConversionJob.OutputPath job
                 \<and> Success r)"
      and j1: "journal st1 = journal st @ evs1"
      and calls: "list_all (\<lambda>c. case c of ConvertCall cv j \<Rightarrow> j = job | _ \<Rightarrow> True) evs1"
      by blast
    have evs1_ok: "list_all overwrite_enabled evs1"
      using calls ConvertBatch_job_overwrite [of request i inputPath]
      by (induction evs1) (auto simp: job_def split: call.splits)
    obtain entry where entry:
      "ConversionResult.InputPath entry = inputPath"
      "Success entry = (convErr = None)"
      "case convErr of
         Some err \<Rightarrow> entry = failure_result inputPath (ConversionJob.OutputPath job) err
       | None \<Rightarrow> convResult = Some entry \<and> Success entry"
      "ConvertBatch_loop e s request pc i (inputPath # rest) (res, st) =
         ConvertBatch_loop e s request pc (Suc i) rest
           (res\<lparr>Results := Results res @ [entry],
                 SuccessCount := SuccessCount res + (if convErr = None then 1 else 0),
                 FailCount := FailCount res + (if convErr = None then 0 else 1)\<rparr>, st2)"
    proof (cases convErr)
      case None
      with ok obtain r where r: "convResult = Some r"
        "ConversionResult.InputPath r = ConversionJob.InputPath job" "Success r"
        by blast
      have "ConvertBatch_loop e s request pc i (inputPath # rest) (res, st) =
         ConvertBatch_loop e s request pc (Suc i) rest
           (res\<lparr>Results := Results res @ [r],
                 SuccessCount := SuccessCount res + 1\<rparr>, st2)"
        using Inr conv None r(1)
        by (simp add: job_def [symmetric] st2_def after_item_def Let_def)
      with r None that [of r] show ?thesis
        by (simp add: job_def ConvertBatch_job_input)
    next
      case (Some msg)
      define failure where
        "failure = failure_result inputPath (ConversionJob.OutputPath job) msg"
      have "ConvertBatch_loop e s request pc i (inputPath # rest) (res, st) =
         ConvertBatch_loop e s request pc (Suc i) rest
           (res\<lparr>Results := Results res @ [failure],
                 FailCount := FailCount res + 1\<rparr>, st2)"
        using Inr conv Some
        by (simp add: job_def [symmetric] st2_def after_item_def failure_def
            failure_result_def Let_def)
      with Some that [of failure] show ?thesis
        by (simp add: failure_def failure_result_def)
    qed
    define res1 where "res1 =
      res\<lparr>Results := Results res @ [entry],
          SuccessCount := SuccessCount res + (if convErr = None then 1 else 0),
          FailCount := FailCount res + (if convErr = None then 0 else 1)\<rparr>"
    from Cons.IH [of "Suc i" res1 st2] obtain res' st' new evs where
      ih: "ConvertBatch_loop e s request pc (Suc i) rest (res1, st2) = Some (res', st')"
          "TotalFiles res' = TotalFiles res1"
          "Results res' = Results res1 @ new"
          "map ConversionResult.InputPath new = rest"
          "results_capture e s request pc (Suc i) rest st2 new"
          "SuccessCount res' = SuccessCount res1 + int (length (filter Success new))"
          "FailCount res' = FailCount res1 + int (length (filter (\<lambda>r. \<not> Success r) new))"
          "journal st' = journal st2 @ evs"
          "list_all overwrite_enabled evs"
      by blast
    have "ConvertBatch_loop e s request pc i (inputPath # rest) (res, st) = Some (res', st')"
      using entry(4) ih(1) by (simp add: res1_def)
    moreover have "TotalFiles res' = TotalFiles res"
      using ih(2) by (simp add: res1_def)
    moreover have "Results res' = Results res @ (entry # new)"
      using ih(3) by (simp add: res1_def)
    moreover have "map ConversionResult.InputPath (entry # new) = inputPath # rest"
      using ih(4) entry(1) by simp
    moreover have "results_capture e s request pc i (inputPath # rest) st (entry # new)"
      using ih(5) Inr conv entry(3)
      unfolding job_def st2_def by simp
    moreover have "SuccessCount res' =
        SuccessCount res + int (length (filter Success (entry # new)))"
      using ih(6) entry(2) by (simp add: res1_def)
    moreover have "FailCount res' =
        FailCount res + int (length (filter (\<lambda>r. \<not> Success r) (entry # new)))"
      using ih(7) entry(2) by (simp add: res1_def)
    moreover have "journal st' = journal st @ (evs1 @ evs)"
      using ih(8) st2_journal j1 by simp
    moreover have "list_all overwrite_enabled (evs1 @ evs)"
      using evs1_ok ih(9) by simp
    ultimately show ?thesis
      by (intro exI [of _ res'] exI [of _ st'] exI [of _ "entry # new"]
          exI [of _ "evs1 @ evs"]) simp
  qed
qed

text \<open>The picture of the concrete batch: its file information, its job, and the image
  adapter's refusal to write WebP.\<close>

lemma demo_info_picture:
  "GetFileInfo demo_env (world (demo_state demo_album)) ''/in/p.png'' =
     Inr \<lparr>Path = ''/in/p.png'', Name = ''p.png'', Extension = ''.png'', Size = 30,
          Type = ''image''\<rparr>"
  by (simp add: GetFileInfo_def demo_env_def demo_state_def demo_album_def demo_Stat_def
      demo_GetFileType_def const_defs path_defs Let_def)

lemma demo_webp_job:
  "ConvertBatch_job two_request 0 ''/in/p.png'' =
     \<lparr>ConversionJob.InputPath = ''/in/p.png'', ConversionJob.OutputPath = ''/out/p.webp'',
      ConversionJob.OutputFormat = ''webp'', OverwriteOutput = True\<rparr>"
  by (simp add: ConvertBatch_job_def two_request_def GenerateOutputPath_def const_defs
      path_defs Let_def)

lemma demo_webp_refused:
  "\<exists>r st2.
     ConvertFile demo_env demo_service (demo_state demo_album)
       (ConvertBatch_job two_request 0 ''/in/p.png'') =
       ((Some r, Some ''WebP encoding is not supported as output format''), st2)"
  unfolding demo_webp_job
  apply (simp add: ConvertFile_def demo_info_picture Let_def)
  apply (simp add: demo_state_def demo_service_def NewConversionService_def const_defs
      do_repo_Create_def do_repo_Update_def demo_env_def Converter_Convert_def
      imageConverter_Convert_def report_def ConvertFile_progress_def do_MkdirAll_def
      do_Create_def demo_album_def demo_Stat_def stat_ok_def failed_def new_result_def
      image_decoder_def image_encoder_def path_defs Let_def)
  done

text \<open>
  Claim C1. Every batch returns a result, never an error or a panic. In it the success and
  failure counts add up to the total, the total is the number of input paths, there are
  as many results as the total says, and the input paths of the results, read in order,
  are the input paths of the request: the i-th result belongs to the i-th path.
\<close>

theorem ConvertBatch_counts_and_order:
  "\<exists>result st'.
     ConvertBatch e s st request progressCallback = Some (Inr result, st')
     \<and> SuccessCount result + FailCount result = TotalFiles result
     \<and> TotalFiles result = int (length (Files request))
     \<and> int (length (Results result)) = TotalFiles result
     \<and> map ConversionResult.InputPath (Results result) = Files request"
proof -
  define res0 where "res0 =
    \<lparr>TotalFiles = int (length (Files request)), SuccessCount = 0, FailCount = 0,
     Results = []\<rparr>"
  from ConvertBatch_loop_post [of e s request progressCallback 0 "Files request" res0 st]
  obtain res' st' new evs where
    loop: "ConvertBatch_loop e s request progressCallback 0 (Files request) (res0, st) =
             Some (res', st')"
    and total: "TotalFiles res' = TotalFiles res0"
    and results: "Results res' = Results res0 @ new"
    and order: "map ConversionResult.InputPath new = Files request"
    and succ: "SuccessCount res' = SuccessCount res0 + int (length (filter Success new))"
    and fail: "FailCount res' =
                 FailCount res0 + int (length (filter (\<lambda>r. \<not> Success r) new))"
    by blast
  have len: "length new = length (Files request)"
    using order by (metis length_map)
  have split: "length (filter Success new) + length (filter (\<lambda>r. \<not> Success r) new) =
      length new"
    by (rule sum_length_filter_compl)
  have "ConvertBatch e s st request progressCallback = Some (Inr res', st')"
    using loop by (simp add: ConvertBatch_def res0_def)
  moreover have "SuccessCount res' + FailCount res' = TotalFiles res'"
    using succ fail total split len by (simp add: res0_def)
  moreover have "TotalFiles res' = int (length (Files request))"
    using total by (simp add: res0_def)
  moreover have "int (length (Results res')) = TotalFiles res'"
    using results total len by (simp add: res0_def)
  moreover have "map ConversionResult.InputPath (Results res') = Files request"
    using results order by (simp add: res0_def)
  ultimately show ?thesis
    by (intro exI [of _ res'] exI [of _ st']) simp
qed

text \<open>
  Claim C5. The job built for any path of any request allows overwriting, whatever the
  make-copies flag says: the flag's negation is stored first and replaced by true when the
  flag is set. Hence every job that a batch hands to an adapter allows overwriting, and
  the adapters' refusal to overwrite is never reached from the batch call.
\<close>

theorem ConvertBatch_always_overwrites:
  "OverwriteOutput (ConvertBatch_job request i inputPath)
   \<and> (\<exists>result st' evs.
        ConvertBatch e s st request progressCallback = Some (Inr result, st')
        \<and> journal st' = journal st @ evs
        \<and> list_all overwrite_enabled evs)"
proof -
  define res0 where "res0 =
    \<lparr>TotalFiles = int (length (Files request)), SuccessCount = 0, FailCount = 0,
     Results = []\<rparr>"
  from ConvertBatch_loop_post [of e s request progressCallback 0 "Files request" res0 st]
  obtain res' st' new evs where
    loop: "ConvertBatch_loop e s request progressCallback 0 (Files request) (res0, st) =
             Some (res', st')"
    and j: "journal st' = journal st @ evs"
    and ok: "list_all overwrite_enabled evs"
    by blast
  have "ConvertBatch e s st request progressCallback = Some (Inr res', st')"
    using loop by (simp add: ConvertBatch_def res0_def)
  with j ok have "\<exists>result st' evs.
        ConvertBatch e s st request progressCallback = Some (Inr result, st')
        \<and> journal st' = journal st @ evs
        \<and> list_all overwrite_enabled evs"
    by (intro exI [of _ res'] exI [of _ st'] exI [of _ evs]) simp
  then show ?thesis
    using ConvertBatch_job_overwrite [of request i inputPath] by simp
qed

text \<open>
  Claim C10, as stated, fails: an empty file list is no failure of the batch call. It
  returns a result with all counts zero and leaves the state alone.
\<close>

theorem ConvertBatch_empty_list_no_error:
  "ConvertBatch demo_env demo_service (demo_state demo_files) empty_request None =
     Some (Inr \<lparr>TotalFiles = 0, SuccessCount = 0, FailCount = 0, Results = []\<rparr>,
           demo_state demo_files)"
  by (simp add: ConvertBatch_def empty_request_def)

text \<open>
  Claim C10, amended. The batch call has no failure of its own: for every request, the
  empty one included, it returns a result and no error. Every path has its result, in
  order, and each result is what the processing of its path gave in the state the earlier
  paths left behind: for a path whose file information cannot be read, the failed result
  with that error as its message and no output path; for a path whose conversion returns
  an error, the failed result with that error as its message and the planned output path;
  otherwise the successful result of the conversion. The two counters count the results
  that succeeded and those that did not.
\<close>

theorem ConvertBatch_captures_item_errors:
  "\<exists>result st'.
     ConvertBatch e s st request progressCallback = Some (Inr result, st')
     \<and> map ConversionResult.InputPath (Results result) = Files request
     \<and> results_capture e s request progressCallback 0 (Files request) st (Results result)
     \<and> SuccessCount result = int (length (filter Success (Results result)))
     \<and> FailCount result = int (length (filter (\<lambda>r. \<not> Success r) (Results result)))"
proof -
  define res0 where "res0 =
    \<lparr>TotalFiles = int (length (Files request)), SuccessCount = 0, FailCount = 0,
     Results = []\<rparr>"
  from ConvertBatch_loop_post [of e s request progressCallback 0 "Files request" res0 st]
  obtain res' st' new evs where
    loop: "ConvertBatch_loop e s request progressCallback 0 (Files request) (res0, st) =
             Some (res', st')"
    and results: "Results res' = Results res0 @ new"
    and order: "map ConversionResult.InputPath new = Files request"
    and capture: "results_capture e s request progressCallback 0 (Files request) st new"
    and succ: "SuccessCount res' = SuccessCount res0 + int (length (filter Success new))"
    and fail: "FailCount res' =
                 FailCount res0 + int (length (filter (\<lambda>r. \<not> Success r) new))"
    by blast
  have "ConvertBatch e s st request progressCallback = Some (Inr res', st')"
    using loop by (simp add: ConvertBatch_def res0_def)
  moreover have "Results res' = new"
    using results by (simp add: res0_def)
  ultimately show ?thesis
    using order capture succ fail
    by (intro exI [of _ res'] exI [of _ st']) (simp add: res0_def)
qed

text \<open>
  A batch of a picture and a video with the target WebP, which the image adapter cannot
  write: the picture's result carries the adapter's error as its message, and the video
  after it has its result as well.
\<close>

theorem ConvertBatch_captures_item_errors_witness:
  "\<exists>result st' r.
     ConvertBatch demo_env demo_service (demo_state demo_album) two_request None =
       Some (Inr result, st')
     \<and> Results result =
         [\<lparr>Success = False, ConversionResult.InputPath = ''/in/p.png'',
           ConversionResult.OutputPath = ''/out/p.webp'', ConversionResult.OutputSize = 0,
           ConversionResult.ErrorMessage =
             ''WebP encoding is not supported as output format''\<rparr>, r]
     \<and> ConversionResult.InputPath r = ''/in/a.mov''
     \<and> SuccessCount result + FailCount result = 2"
proof -
  from ConvertBatch_captures_item_errors
    [of demo_env demo_service "demo_state demo_album" two_request None]
  obtain result st' where
    run: "ConvertBatch demo_env demo_service (demo_state demo_album) two_request None =
       Some (Inr result, st')"
    and order: "map ConversionResult.InputPath (Results result) = Files two_request"
    and capture: "results_capture demo_env demo_service two_request None 0
       (Files two_request) (demo_state demo_album) (Results result)"
    and succ: "SuccessCount result = int (length (filter Success (Results result)))"
    and fail: "FailCount result =
       int (length (filter (\<lambda>r. \<not> Success r) (Results result)))"
    by (elim exE conjE) (rule that)
  have files: "Files two_request = [''/in/p.png'', ''/in/a.mov'']"
    by (simp add: two_request_def)
  from order obtain r1 r where shape: "Results result = [r1, r]"
    and r: "ConversionResult.InputPath r = ''/in/a.mov''"
    unfolding files by (auto simp: map_eq_Cons_conv)
  obtain r0 st2 where refused:
    "ConvertFile demo_env demo_service (demo_state demo_album)
       (ConvertBatch_job two_request 0 ''/in/p.png'') =
       ((Some r0, Some ''WebP encoding is not supported as output format''), st2)"
    using demo_webp_refused by blast
  have "r1 = failure_result ''/in/p.png'' ''/out/p.webp''
      ''WebP encoding is not supported as output format''"
    using capture unfolding files shape
    by (simp add: demo_info_picture refused) (simp add: demo_webp_job)
  then have first: "Results result =
         [\<lparr>Success = False, ConversionResult.InputPath = ''/in/p.png'',
           ConversionResult.OutputPath = ''/out/p.webp'', ConversionResult.OutputSize = 0,
           ConversionResult.ErrorMessage =
             ''WebP encoding is not supported as output format''\<rparr>, r]"
    using shape by (simp add: failure_result_def)
  have "length (filter Success (Results result)) +
      length (filter (\<lambda>r. \<not> Success r) (Results result)) = length (Results result)"
    by (rule sum_length_filter_compl)
  then have counts: "SuccessCount result + FailCount result = 2"
    using succ fail shape by simp
  show ?thesis
    by (intro exI [of _ result] exI [of _ st'] exI [of _ r] conjI run first r counts)
qed

section \<open>Cancellation\<close>

lemma reachable_no_active:
  "reachable e p \<Longrightarrow> activeConversions (fst p) = Map.empty"
proof (induction rule: reachable.induct)
  case (new videoConv imageConv st)
  show ?case by (simp add: NewConversionService_def)
next
  case (convertFile s st job r st')
  then show ?case by simp
next
  case (convertBatch s st request progressCallback r st')
  then show ?case by simp
next
  case (cancelConversion s st cid r s' st')
  then show ?case by (simp add: CancelConversion_def)
next
  case (outside s st st')
  then show ?case by simp
qed

text \<open>
  Claim C6. Cancelling an id that has no entry in the map of active conversions returns
  the not-found error; no cancel function is run, and neither the service nor the world
  changes, so whatever else is running under another id is left alone. No call of the
  service ever adds an entry, so in every state the service can reach, every id gets this
  answer.
\<close>

theorem CancelConversion_not_found:
  assumes "activeConversions s cid = None \<or> reachable e (s, st)"
  shows "CancelConversion e s st cid =
           (Some (''conversion '' @ Itoa (int cid) @ '' not found or already completed''),
            s, st)"
proof -
  have "activeConversions s cid = None"
    using assms reachable_no_active [of e "(s, st)"] by auto
  then show ?thesis by (simp add: CancelConversion_def)
qed

theorem CancelConversion_not_found_witness:
  "reachable demo_env (demo_service, demo_state demo_files)
   \<and> CancelConversion demo_env demo_service (demo_state demo_files) 7 =
       (Some ''conversion 7 not found or already completed'', demo_service,
        demo_state demo_files)"
proof -
  have r: "reachable demo_env (demo_service, demo_state demo_files)"
    unfolding demo_service_def by (rule reachable.new)
  then have "activeConversions demo_service 7 = None
      \<or> reachable demo_env (demo_service, demo_state demo_files)"
    by simp
  from CancelConversion_not_found [OF this] r show ?thesis
    by (simp add: Itoa_def Itoa_nat.simps)
qed

section \<open>The overwrite check of the adapters\<close>

lemma history_not_transcoder: "list_all history_call evs \<Longrightarrow> \<not> list_ex transcoder_call evs"
  by (induction evs) (auto elim: history_call.elims)

lemma refusal:
  assumes "\<not> OverwriteOutput job"
    and "at_output_check e c cb st job = Some st1"
    and "stat_ok (os_Stat e (world st1) (ConversionJob.OutputPath job))"
  shows "Converter_Convert e c cb st job =
     (((new_result job)\<lparr>ConversionResult.ErrorMessage :=
          ''Output file already exists: '' @ ConversionJob.OutputPath job\<rparr>,
       Some (already_exists_error e c job)), st1)"
proof (cases c)
  case FFmpegVideoConverter
  with assms show ?thesis
    by (auto simp: Converter_Convert_def ffmpegVideoConverter_Convert_def
        at_output_check_def already_exists_error_def failed_def Let_def
        split: prod.splits option.splits if_splits)
next
  case AVFVideoConverter
  with assms show ?thesis
    by (auto simp: Converter_Convert_def avfVideoConverter_Convert_def
        at_output_check_def already_exists_error_def failed_def Let_def
        split: prod.splits option.splits if_splits)
next
  case ImageConverter
  with assms show ?thesis
    by (auto simp: Converter_Convert_def imageConverter_Convert_def
        at_output_check_def already_exists_error_def failed_def Let_def
        split: prod.splits option.splits if_splits)
qed

lemma at_output_check_journal:
  assumes h: "history_only cb" and "at_output_check e c cb st job = Some st1"
  shows "\<exists>evs. journal st1 = journal st @ ConvertCall c job # evs
           \<and> \<not> list_ex transcoder_call evs"
proof (cases c)
  case FFmpegVideoConverter
  with assms(2) show ?thesis
    by (auto simp: at_output_check_def Let_def split: prod.splits option.splits if_splits
        dest!: do_MkdirAll_journal)
next
  case AVFVideoConverter
  with assms(2) show ?thesis
    by (auto simp: at_output_check_def Let_def split: prod.splits option.splits if_splits
        dest!: do_MkdirAll_journal)
next
  case ImageConverter
  with assms(2) show ?thesis
    using history_not_transcoder [OF callback_events_history [OF h]]
    by (auto simp: at_output_check_def Let_def report_journal [OF h]
        split: prod.splits option.splits if_splits
        dest!: do_MkdirAll_journal)
qed

lemma failing_item_continues:
  assumes info: "GetFileInfo e (world st0) inputPath = Inr info"
    and conv: "ConvertFile e s st0 (ConvertBatch_job request i inputPath) =
                 ((convResult, Some err), st2)"
  shows "\<exists>res' st' new.
     ConvertBatch_loop e s request pc i (inputPath # rest) (res, st0) = Some (res', st')
     \<and> Results res' =
         Results res @
         failure_result inputPath
           (ConversionJob.OutputPath (ConvertBatch_job request i inputPath)) err # new
     \<and> map ConversionResult.InputPath new = rest
     \<and> results_capture e s request pc (Suc i) rest
          (after_item pc request i inputPath st2) new"
proof -
  from ConvertBatch_loop_post [of e s request pc i "inputPath # rest" res st0]
  obtain res' st' new evs where
    loop: "ConvertBatch_loop e s request pc i (inputPath # rest) (res, st0) = Some (res', st')"
    and "TotalFiles res' = TotalFiles res"
    and results: "Results res' = Results res @ new"
    and order: "map ConversionResult.InputPath new = inputPath # rest"
    and cap: "results_capture e s request pc i (inputPath # rest) st0 new"
    and "SuccessCount res' = SuccessCount res + int (length (filter Success new))"
    and "FailCount res' = FailCount res + int (length (filter (\<lambda>r. \<not> Success r) new))"
    and "journal st' = journal st0 @ evs"
    and "list_all overwrite_enabled evs"
    by (elim exE conjE) (rule that)
  from order obtain r rs where new: "new = r # rs"
    by (cases new) auto
  from cap info conv new have
    r: "r = failure_result inputPath
              (ConversionJob.OutputPath (ConvertBatch_job request i inputPath)) err"
    and rs: "results_capture e s request pc (Suc i) rest
               (after_item pc request i inputPath st2) rs"
    by simp_all
  from loop results order new r rs show ?thesis
    by (intro exI [of _ res'] exI [of _ st'] exI [of _ rs]) simp
qed

text \<open>
  Claim C4, as stated, fails: a job that must not overwrite, whose output path exists and
  whose input file is gone, is turned down by the FFmpeg adapter for the missing input,
  not for the existing output.
\<close>

theorem Convert_missing_input_other_error:
  "\<not> OverwriteOutput lost_job
   \<and> stat_ok (os_Stat demo_env demo_taken (ConversionJob.OutputPath lost_job))
   \<and> Converter_Convert demo_env FFmpegVideoConverter None (demo_state demo_taken) lost_job =
       ((\<lparr>Success = False, ConversionResult.InputPath = ''/in/gone.mov'',
          ConversionResult.OutputPath = ''/out/a.mp4'', ConversionResult.OutputSize = 0,
          ConversionResult.ErrorMessage = ''Input file not found: /in/gone.mov''\<rparr>,
         Some ''Input file not found: /in/gone.mov''),
        \<lparr>world = demo_taken, journal = [ConvertCall FFmpegVideoConverter lost_job]\<rparr>)"
  by (simp add: lost_job_def demo_taken_def demo_env_def demo_Stat_def stat_ok_def
      demo_state_def Converter_Convert_def ffmpegVideoConverter_Convert_def failed_def
      new_result_def Let_def)

text \<open>
  Claim C4, amended. Take a job that must not overwrite, and an adapter that gets as far
  as looking for the output path, which is there: the input file exists (video adapters)
  or opens and decodes (image adapter) and the output directory has been made. Then the
  adapter returns the failed result with the already-exists message and the
  already-exists error, in the very state in which it looked; when the progress callback
  keeps to the history, as the one of the service does, nothing has been journalled since
  the hand-over that probes or runs a transcoder or creates or encodes an output file.
  And an item of a batch whose conversion returns an error, this one or any other, does
  not stop the batch: the failed result of the item is recorded with the error as its
  message, and every path behind it gets its result, which is what processing that path
  gives in the state the failed item has left behind.
\<close>

theorem Convert_refuses_existing_output:
  "(\<not> OverwriteOutput job
    \<and> at_output_check e c progressCallback st job = Some st1
    \<and> stat_ok (os_Stat e (world st1) (ConversionJob.OutputPath job)) \<longrightarrow>
      Converter_Convert e c progressCallback st job =
        (((new_result job)\<lparr>ConversionResult.ErrorMessage :=
             ''Output file already exists: '' @ ConversionJob.OutputPath job\<rparr>,
          Some (already_exists_error e c job)), st1)
      \<and> (history_only progressCallback \<longrightarrow>
           (\<exists>evs. journal st1 = journal st @ ConvertCall c job # evs
                  \<and> \<not> list_ex transcoder_call evs)))
   \<and> (GetFileInfo e (world st0) inputPath = Inr info
      \<and> ConvertFile e s st0 (ConvertBatch_job request i inputPath) =
          ((convResult, Some err), st2) \<longrightarrow>
      (\<exists>res' st' new.
         ConvertBatch_loop e s request batchCallback i (inputPath # rest) (res, st0) =
           Some (res', st')
         \<and> Results res' =
             Results res @
             failure_result inputPath
               (ConversionJob.OutputPath (ConvertBatch_job request i inputPath)) err # new
         \<and> map ConversionResult.InputPath new = rest
         \<and> results_capture e s request batchCallback (Suc i) rest
              (after_item batchCallback request i inputPath st2) new))"
  using refusal [of job e c progressCallback st st1]
    at_output_check_journal [of progressCallback e c st job st1]
    failing_item_continues [of e st0 inputPath info s request i convResult err st2
      batchCallback rest res]
  by blast

text \<open>
  The picture job through the image adapter with the callback of the service, and the
  batch of the picture and the video: the picture fails and the video still has its
  result.
\<close>

lemma demo_at_check:
  "at_output_check demo_env ImageConverter (Some (ConvertFile_progress demo_env))
     demo_tracking picture_job = Some demo_checked"
  by (simp add: at_output_check_def demo_env_def demo_tracking_def picture_job_def demo_album_def
      demo_checked_def demo_Stat_def stat_ok_def report_def ConvertFile_progress_def
      do_repo_Update_def do_MkdirAll_def Let_def path_defs image_decoder_def)

lemma demo_output_taken:
  "stat_ok (os_Stat demo_env (world demo_checked) (ConversionJob.OutputPath picture_job))"
  by (simp add: demo_env_def demo_checked_def picture_job_def demo_album_def demo_Stat_def
      stat_ok_def)

theorem Convert_refuses_existing_output_witness:
  "\<not> OverwriteOutput picture_job
   \<and> at_output_check demo_env ImageConverter (Some (ConvertFile_progress demo_env))
        demo_tracking picture_job = Some demo_checked
   \<and> stat_ok (os_Stat demo_env (world demo_checked) (ConversionJob.OutputPath picture_job))
   \<and> history_only (Some (ConvertFile_progress demo_env))
   \<and> Converter_Convert demo_env ImageConverter (Some (ConvertFile_progress demo_env))
        demo_tracking picture_job =
       ((\<lparr>Success = False, ConversionResult.InputPath = ''/in/p.png'',
          ConversionResult.OutputPath = ''/out/p.jpg'', ConversionResult.OutputSize = 0,
          ConversionResult.ErrorMessage = ''Output file already exists: /out/p.jpg''\<rparr>,
         Some ''Output file already exists: /out/p.jpg''), demo_checked)
   \<and> (\<exists>evs. journal demo_checked = ConvertCall ImageConverter picture_job # evs
             \<and> \<not> list_ex transcoder_call evs)
   \<and> (\<exists>info. GetFileInfo demo_env (world (demo_state demo_album)) ''/in/p.png'' = Inr info)
   \<and> (\<exists>r st2.
         ConvertFile demo_env demo_service (demo_state demo_album)
           (ConvertBatch_job two_request 0 ''/in/p.png'') =
           ((Some r, Some ''WebP encoding is not supported as output format''), st2))
   \<and> (\<exists>res' st' new.
         ConvertBatch_loop demo_env demo_service two_request None 0
           [''/in/p.png'', ''/in/a.mov'']
           (\<lparr>TotalFiles = 2, SuccessCount = 0, FailCount = 0, Results = []\<rparr>,
            demo_state demo_album) = Some (res', st')
         \<and> Results res' =
             failure_result ''/in/p.png'' ''/out/p.webp''
               ''WebP encoding is not supported as output format'' # new
         \<and> map ConversionResult.InputPath new = [''/in/a.mov''])"
proof -
  have flag: "\<not> OverwriteOutput picture_job"
    by (simp add: picture_job_def)
  obtain r st2 where refused:
    "ConvertFile demo_env demo_service (demo_state demo_album)
       (ConvertBatch_job two_request 0 ''/in/p.png'') =
       ((Some r, Some ''WebP encoding is not supported as output format''), st2)"
    using demo_webp_refused by blast
  note inst = Convert_refuses_existing_output
    [of picture_job demo_env ImageConverter "Some (ConvertFile_progress demo_env)"
        demo_tracking demo_checked "demo_state demo_album" "''/in/p.png''"
        "\<lparr>Path = ''/in/p.png'', Name = ''p.png'', Extension = ''.png'', Size = 30,
          Type = ''image''\<rparr>"
        demo_service two_request 0 "Some r"
        "''WebP encoding is not supported as output format''" st2 None "[''/in/a.mov'']"
        "\<lparr>TotalFiles = 2, SuccessCount = 0, FailCount = 0, Results = []\<rparr>"]
  have adapter:
    "Converter_Convert demo_env ImageConverter (Some (ConvertFile_progress demo_env))
       demo_tracking picture_job =
       (((new_result picture_job)\<lparr>ConversionResult.ErrorMessage :=
            ''Output file already exists: '' @ ConversionJob.OutputPath picture_job\<rparr>,
         Some (already_exists_error demo_env ImageConverter picture_job)), demo_checked)"
    and quiet:
    "\<exists>evs. journal demo_checked =
             journal demo_tracking @ ConvertCall ImageConverter picture_job # evs
           \<and> \<not> list_ex transcoder_call evs"
    using inst flag demo_at_check demo_output_taken history_only_ConvertFile_progress
    by blast+
  have "\<exists>res' st' new.
       ConvertBatch_loop demo_env demo_service two_request None 0
         [''/in/p.png'', ''/in/a.mov'']
         (\<lparr>TotalFiles = 2, SuccessCount = 0, FailCount = 0, Results = []\<rparr>,
          demo_state demo_album) = Some (res', st')
       \<and> Results res' =
           Results \<lparr>TotalFiles = 2, SuccessCount = 0, FailCount = 0, Results = []\<rparr> @
           failure_result ''/in/p.png''
             (ConversionJob.OutputPath (ConvertBatch_job two_request 0 ''/in/p.png''))
             ''WebP encoding is not supported as output format'' # new
       \<and> map ConversionResult.InputPath new = [''/in/a.mov'']
       \<and> results_capture demo_env demo_service two_request None (Suc 0)
            [''/in/a.mov''] (after_item None two_request 0 ''/in/p.png'' st2) new"
    by (rule inst [THEN conjunct2, THEN mp], rule conjI, rule demo_info_picture,
        rule refused)
  then obtain res' st' new where
    loop: "ConvertBatch_loop demo_env demo_service two_request None 0
         [''/in/p.png'', ''/in/a.mov'']
         (\<lparr>TotalFiles = 2, SuccessCount = 0, FailCount = 0, Results = []\<rparr>,
          demo_state demo_album) = Some (res', st')"
    and results: "Results res' =
           Results \<lparr>TotalFiles = 2, SuccessCount = 0, FailCount = 0, Results = []\<rparr> @
           failure_result ''/in/p.png''
             (ConversionJob.OutputPath (ConvertBatch_job two_request 0 ''/in/p.png''))
             ''WebP encoding is not supported as output format'' # new"
    and paths: "map ConversionResult.InputPath new = [''/in/a.mov'']"
    and "results_capture demo_env demo_service two_request None (Suc 0)
            [''/in/a.mov''] (after_item None two_request 0 ''/in/p.png'' st2) new"
    by (elim exE conjE) (rule that)
  have results': "Results res' =
      failure_result ''/in/p.png'' ''/out/p.webp''
        ''WebP encoding is not supported as output format'' # new"
    using results by (simp add: demo_webp_job)
  have others: "\<exists>res' st' new.
         ConvertBatch_loop demo_env demo_service two_request None 0
           [''/in/p.png'', ''/in/a.mov'']
           (\<lparr>TotalFiles = 2, SuccessCount = 0, FailCount = 0, Results = []\<rparr>,
            demo_state demo_album) = Some (res', st')
         \<and> Results res' =
             failure_result ''/in/p.png'' ''/out/p.webp''
               ''WebP encoding is not supported as output format'' # new
         \<and> map ConversionResult.InputPath new = [''/in/a.mov'']"
    by (intro exI [of _ res'] exI [of _ st'] exI [of _ new] conjI loop results' paths)
  have picture: "Converter_Convert demo_env ImageConverter
      (Some (ConvertFile_progress demo_env)) demo_tracking picture_job =
       ((\<lparr>Success = False, ConversionResult.InputPath = ''/in/p.png'',
          ConversionResult.OutputPath = ''/out/p.jpg'', ConversionResult.OutputSize = 0,
          ConversionResult.ErrorMessage = ''Output file already exists: /out/p.jpg''\<rparr>,
         Some ''Output file already exists: /out/p.jpg''), demo_checked)"
    using adapter
    by (simp add: already_exists_error_def new_result_def picture_job_def demo_env_def)
  have events: "\<exists>evs. journal demo_checked = ConvertCall ImageConverter picture_job # evs
      \<and> \<not> list_ex transcoder_call evs"
    using quiet by (simp add: demo_tracking_def)
  have info: "\<exists>info. GetFileInfo demo_env (world (demo_state demo_album)) ''/in/p.png'' =
      Inr info"
    using demo_info_picture by (rule exI)
  have item: "\<exists>r st2.
         ConvertFile demo_env demo_service (demo_state demo_album)
           (ConvertBatch_job two_request 0 ''/in/p.png'') =
           ((Some r, Some ''WebP encoding is not supported as output format''), st2)"
    by (rule demo_webp_refused)
  show ?thesis
    by (intro conjI flag demo_at_check demo_output_taken history_only_ConvertFile_progress
        picture events info item others)
qed

section \<open>Codec selection and the GIF path\<close>

lemma transcode_journal:
  assumes "transcode_reached e st job" and "history_only cb"
  shows "\<exists>evs. journal (snd (ffmpegVideoConverter_Convert e cb st job)) =
     journal st @
     [MkdirAllCall (Dir (ConversionJob.OutputPath job)),
      ProbeCall [''-i'', ConversionJob.InputPath job, ''-hide_banner''],
      ExecCall
        (if target_format e job = ''gif'' then
           ConvertToGif_args (ConversionJob.InputPath job) (ConversionJob.OutputPath job)
             (OverwriteOutput job)
         else
           Convert_args
             \<lparr>ConvertOptions.InputPath = ConversionJob.InputPath job,
              ConvertOptions.OutputPath = ConversionJob.OutputPath job,
              Overwrite = OverwriteOutput job,
              VideoCodec = fst (GetDefaultCodec (unicode_ToLower e) (target_format e job)),
              VideoBitrate = [], Resolution = [], FrameRate = 0,
              AudioCodec = snd (GetDefaultCodec (unicode_ToLower e) (target_format e job)),
              AudioBitrate = [], SampleRate = 0\<rparr>)] @ evs
     \<and> list_all history_call evs"
proof -
  obtain err1 st1 where mk:
    "do_MkdirAll e st (Dir (ConversionJob.OutputPath job)) = (err1, st1)"
    by (cases "do_MkdirAll e st (Dir (ConversionJob.OutputPath job))") auto
  have err1: "err1 = None" and w1: "world st1 =
      snd (os_MkdirAll e (world st) (Dir (ConversionJob.OutputPath job)))"
    using mk assms(1)
    by (auto simp: do_MkdirAll_def transcode_reached_def split: prod.splits)
  have j1: "journal st1 = journal st @ [MkdirAllCall (Dir (ConversionJob.OutputPath job))]"
    using mk by (rule do_MkdirAll_journal)
  have pass: "\<not> (\<not> OverwriteOutput job \<and>
      stat_ok (os_Stat e (world st1) (ConversionJob.OutputPath job)))"
    using assms(1) w1 by (auto simp: transcode_reached_def)
  have inp: "os_Stat e (world st) (ConversionJob.InputPath job) \<noteq> StatNotExist"
    using assms(1) by (simp add: transcode_reached_def)
  show ?thesis
  proof (cases "target_format e job = ''gif''")
    case True
    obtain err2 st2 where gif:
      "ffmpeg_ConvertToGif e cb st1 (ConversionJob.InputPath job)
         (ConversionJob.OutputPath job) (OverwriteOutput job) = (err2, st2)"
      by (cases "ffmpeg_ConvertToGif e cb st1 (ConversionJob.InputPath job)
            (ConversionJob.OutputPath job) (OverwriteOutput job)") auto
    have "snd (ffmpegVideoConverter_Convert e cb st job) = st2"
      using mk err1 pass inp True gif
      by (auto simp: ffmpegVideoConverter_Convert_def Let_def failed_def succeeded_def
          target_format_def split: option.splits)
    then show ?thesis
      using ffmpeg_ConvertToGif_journal [OF assms(2) gif] j1 True by simp
  next
    case False
    define opts where "opts =
      \<lparr>ConvertOptions.InputPath = ConversionJob.InputPath job,
       ConvertOptions.OutputPath = ConversionJob.OutputPath job,
       Overwrite = OverwriteOutput job,
       VideoCodec = fst (GetDefaultCodec (unicode_ToLower e) (target_format e job)),
       VideoBitrate = [], Resolution = [], FrameRate = 0,
       AudioCodec = snd (GetDefaultCodec (unicode_ToLower e) (target_format e job)),
       AudioBitrate = [], SampleRate = 0\<rparr>"
    obtain err2 st2 where conv: "ffmpeg_Convert e cb st1 opts = (err2, st2)"
      by (cases "ffmpeg_Convert e cb st1 opts") auto
    have "snd (ffmpegVideoConverter_Convert e cb st job) = st2"
      using mk err1 pass inp False conv
      by (auto simp: ffmpegVideoConverter_Convert_def Let_def failed_def succeeded_def
          target_format_def opts_def split: option.splits prod.splits)
    then show ?thesis
      using ffmpeg_Convert_journal [OF assms(2) conv] j1 False by (simp add: opts_def)
  qed
qed

lemma Convert_args_codecs_only:
  "Convert_args
     \<lparr>ConvertOptions.InputPath = inputPath, ConvertOptions.OutputPath = outputPath,
      Overwrite = overwrite, VideoCodec = videoCodec, VideoBitrate = [], Resolution = [],
      FrameRate = 0, AudioCodec = audioCodec, AudioBitrate = [], SampleRate = 0\<rparr> =
   (if overwrite then [''-y''] else [''-n'']) @ [''-i'', inputPath] @
   codec_args (videoCodec, audioCodec) @
   [''-progress'', ''pipe:1'', ''-nostats'', outputPath]"
  by (simp add: Convert_args_def codec_args_def)

text \<open>
  Claim C9. The default codec pair is looked up by target format: mp4 gives libx264 and
  aac, webm gives libvpx-vp9 and libopus, and a format that, in lower case and without
  its leading dot, is outside the table gives two empty names, for which no codec
  argument is passed. Once the FFmpeg adapter starts the transcoder, it runs one command
  after probing the input: for the target gif the palette filter graph (palettegen, then
  paletteuse, at 10 frames per second and width 480) with no codec argument, and for any
  other target the generic command with the codec pair of that target. What follows the
  command in the journal are writes of the history by the progress callback.
\<close>

theorem default_codecs_and_gif_path:
  "GetDefaultCodec unicode_lower ''mp4'' = (''libx264'', ''aac'')
   \<and> GetDefaultCodec unicode_lower ''webm'' = (''libvpx-vp9'', ''libopus'')
   \<and> (TrimPrefix (ToLower unicode_lower format) ''.'' \<notin>
        set [''mp4'', ''webm'', ''avi'', ''mkv'', ''mov''] \<longrightarrow>
        GetDefaultCodec unicode_lower format = ([], [])
        \<and> codec_args (GetDefaultCodec unicode_lower format) = [])
   \<and> (transcode_reached e st job \<and> history_only progressCallback \<longrightarrow>
        (\<exists>evs.
           journal (snd (ffmpegVideoConverter_Convert e progressCallback st job)) =
             journal st @
             [MkdirAllCall (Dir (ConversionJob.OutputPath job)),
              ProbeCall [''-i'', ConversionJob.InputPath job, ''-hide_banner''],
              ExecCall
                (if target_format e job = ''gif'' then
                   (if OverwriteOutput job then [''-y''] else []) @
                   [''-i'', ConversionJob.InputPath job,
                    ''-vf'',
                    ''fps=10,scale=480:-1:flags=lanczos,split[s0][s1];[s0]palettegen[p];[s1][p]paletteuse'',
                    ''-loop'', ''0'', ''-progress'', ''pipe:1'', ''-nostats'',
                    ConversionJob.OutputPath job]
                 else
                   (if OverwriteOutput job then [''-y''] else [''-n'']) @
                   [''-i'', ConversionJob.InputPath job] @
                   codec_args (GetDefaultCodec (unicode_ToLower e) (target_format e job)) @
                   [''-progress'', ''pipe:1'', ''-nostats'', ConversionJob.OutputPath job])] @
             evs
           \<and> list_all history_call evs))"
proof (intro conjI impI)
  show "GetDefaultCodec unicode_lower ''mp4'' = (''libx264'', ''aac'')"
    by (simp add: GetDefaultCodec_def path_defs Let_def)
  show "GetDefaultCodec unicode_lower ''webm'' = (''libvpx-vp9'', ''libopus'')"
    by (simp add: GetDefaultCodec_def path_defs Let_def)
next
  assume other: "TrimPrefix (ToLower unicode_lower format) ''.'' \<notin>
    set [''mp4'', ''webm'', ''avi'', ''mkv'', ''mov'']"
  then show none: "GetDefaultCodec unicode_lower format = ([], [])"
    by (simp add: GetDefaultCodec_def Let_def)
  then show "codec_args (GetDefaultCodec unicode_lower format) = []"
    by (simp add: codec_args_def)
next
  assume reached: "transcode_reached e st job \<and> history_only progressCallback"
  from transcode_journal [OF reached [THEN conjunct1] reached [THEN conjunct2]]
  obtain evs where
    j: "journal (snd (ffmpegVideoConverter_Convert e progressCallback st job)) =
     journal st @
     [MkdirAllCall (Dir (ConversionJob.OutputPath job)),
      ProbeCall [''-i'', ConversionJob.InputPath job, ''-hide_banner''],
      ExecCall
        (if target_format e job = ''gif'' then
           ConvertToGif_args (ConversionJob.InputPath job) (ConversionJob.OutputPath job)
             (OverwriteOutput job)
         else
           Convert_args
             \<lparr>ConvertOptions.InputPath = ConversionJob.InputPath job,
              ConvertOptions.OutputPath = ConversionJob.OutputPath job,
              Overwrite = OverwriteOutput job,
              VideoCodec = fst (GetDefaultCodec (unicode_ToLower e) (target_format e job)),
              VideoBitrate = [], Resolution = [], FrameRate = 0,
              AudioCodec = snd (GetDefaultCodec (unicode_ToLower e) (target_format e job)),
              AudioBitrate = [], SampleRate = 0\<rparr>)] @ evs"
    and h: "list_all history_call evs"
    by (elim exE conjE) (rule that)
  show "\<exists>evs.
           journal (snd (ffmpegVideoConverter_Convert e progressCallback st job)) =
             journal st @
             [MkdirAllCall (Dir (ConversionJob.OutputPath job)),
              ProbeCall [''-i'', ConversionJob.InputPath job, ''-hide_banner''],
              ExecCall
                (if target_format e job = ''gif'' then
                   (if OverwriteOutput job then [''-y''] else []) @
                   [''-i'', ConversionJob.InputPath job,
                    ''-vf'',
                    ''fps=10,scale=480:-1:flags=lanczos,split[s0][s1];[s0]palettegen[p];[s1][p]paletteuse'',
                    ''-loop'', ''0'', ''-progress'', ''pipe:1'', ''-nostats'',
                    ConversionJob.OutputPath job]
                 else
                   (if OverwriteOutput job then [''-y''] else [''-n'']) @
                   [''-i'', ConversionJob.InputPath job] @
                   codec_args (GetDefaultCodec (unicode_ToLower e) (target_format e job)) @
                   [''-progress'', ''pipe:1'', ''-nostats'', ConversionJob.OutputPath job])] @
             evs
           \<and> list_all history_call evs"
    using h unfolding j Convert_args_codecs_only
    by (intro exI [of _ evs]) (simp add: ConvertToGif_args_def)
qed

lemma gif_job_reached: "transcode_reached demo_env (demo_state demo_files) gif_job"
  by (simp add: transcode_reached_def gif_job_def demo_env_def demo_state_def demo_files_def
      demo_Stat_def)

theorem default_codecs_and_gif_path_witness:
  "TrimPrefix (ToLower (unicode_ToLower demo_env) ''.FLV'') ''.'' \<notin>
     set [''mp4'', ''webm'', ''avi'', ''mkv'', ''mov'']
   \<and> GetDefaultCodec (unicode_ToLower demo_env) ''.FLV'' = ([], [])
   \<and> transcode_reached demo_env (demo_state demo_files) gif_job
   \<and> history_only (None :: (demo_world, unit) callback)
   \<and> journal (snd (ffmpegVideoConverter_Convert demo_env None (demo_state demo_files)
        gif_job)) =
       [MkdirAllCall ''/out'',
        ProbeCall [''-i'', ''/in/a.mp4'', ''-hide_banner''],
        ExecCall
          [''-y'', ''-i'', ''/in/a.mp4'', ''-vf'',
           ''fps=10,scale=480:-1:flags=lanczos,split[s0][s1];[s0]palettegen[p];[s1][p]paletteuse'',
           ''-loop'', ''0'', ''-progress'', ''pipe:1'', ''-nostats'', ''/out/a.gif'']]"
proof -
  have other: "TrimPrefix (ToLower (unicode_ToLower demo_env) ''.FLV'') ''.'' \<notin>
      set [''mp4'', ''webm'', ''avi'', ''mkv'', ''mov'']"
    by (simp add: path_defs)
  have dir: "Dir ''/out/a.gif'' = ''/out''"
    by (simp add: path_defs Let_def)
  have run: "journal (snd (ffmpegVideoConverter_Convert demo_env None
      (demo_state demo_files) gif_job)) =
       [MkdirAllCall ''/out'',
        ProbeCall [''-i'', ''/in/a.mp4'', ''-hide_banner''],
        ExecCall
          [''-y'', ''-i'', ''/in/a.mp4'', ''-vf'',
           ''fps=10,scale=480:-1:flags=lanczos,split[s0][s1];[s0]palettegen[p];[s1][p]paletteuse'',
           ''-loop'', ''0'', ''-progress'', ''pipe:1'', ''-nostats'', ''/out/a.gif'']]"
    by (simp add: ffmpegVideoConverter_Convert_def ffmpeg_ConvertToGif_def GetDuration_def
        do_CombinedOutput_def do_Run_def do_MkdirAll_def report_def ConvertToGif_args_def
        gif_job_def demo_env_def demo_state_def demo_files_def demo_Stat_def stat_ok_def
        succeeded_def new_result_def failed_def path_defs Let_def)
  show ?thesis
    using default_codecs_and_gif_path
      [of "unicode_ToLower demo_env" "''.FLV''" demo_env "demo_state demo_files" gif_job
          None]
      other gif_job_reached history_only_None run
    by simp
qed
end
